theory Spec2Isabelle
  imports Main "HOL-Library.Word" "HOL-Library.Sublist"
begin

section \<open>Strings\<close>

text \<open>
  A TypeScript string is a sequence of 16-bit code units. The methods the queue uses
  (\<^verbatim>\<open>endsWith\<close>, \<^verbatim>\<open>startsWith\<close>, \<^verbatim>\<open>includes\<close>, \<^verbatim>\<open>trim\<close>, concatenation by template
  literals) all work on code units, so a string is a list of 16-bit words and
  \<open>js\<close> turns an ASCII literal of the source into such a list.
\<close>

type_synonym js_string = "16 word list"

definition js :: "string \<Rightarrow> js_string" where
  "js s = map of_char s"

text \<open>\<^verbatim>\<open>s.endsWith(x)\<close>, \<^verbatim>\<open>s.startsWith(x)\<close> and \<^verbatim>\<open>s.includes(x)\<close>.\<close>

definition endsWith :: "js_string \<Rightarrow> js_string \<Rightarrow> bool" where
  "endsWith s x = suffix x s"

definition startsWith :: "js_string \<Rightarrow> js_string \<Rightarrow> bool" where
  "startsWith s x = prefix x s"

definition includes_str :: "js_string \<Rightarrow> js_string \<Rightarrow> bool" where
  "includes_str s x = sublist x s"

text \<open>
  \<^verbatim>\<open>String.prototype.trim\<close> removes the code units of ECMAScript's WhiteSpace and
  LineTerminator productions from both ends: TAB, LF, VT, FF, CR, SP, NBSP, U+1680,
  U+2000 to U+200A, U+2028, U+2029, U+202F, U+205F, U+3000 and U+FEFF.
\<close>

definition isWhiteSpace :: "16 word \<Rightarrow> bool" where
  "isWhiteSpace c =
     (c = 0x9 \<or> c = 0xA \<or> c = 0xB \<or> c = 0xC \<or> c = 0xD \<or> c = 0x20 \<or> c = 0xA0 \<or>
      c = 0x1680 \<or> (0x2000 \<le> c \<and> c \<le> 0x200A) \<or> c = 0x2028 \<or> c = 0x2029 \<or>
      c = 0x202F \<or> c = 0x205F \<or> c = 0x3000 \<or> c = 0xFEFF)"

definition trim :: "js_string \<Rightarrow> js_string" where
  "trim s = dropWhile isWhiteSpace (rev (dropWhile isWhiteSpace (rev s)))"

section \<open>Commits, stored messages and errors\<close>

text \<open>
  \<^verbatim>\<open>DefaultLogFields\<close> is the entry of the collaborator's log; \<open>message\<close> is the
  commit's subject line and \<open>body\<close> the rest of the commit message.
\<close>

record DefaultLogFields =
  hash :: js_string
  date :: js_string
  message :: js_string
  refs :: js_string
  body :: js_string
  author_name :: js_string
  author_email :: js_string

text \<open>
  The class \<^verbatim>\<open>Message\<close> of the sources with its three subclasses (the queue imports
  them under the names \<^verbatim>\<open>StoredMessage\<close>, \<^verbatim>\<open>StoredCreateJobMessage\<close> and
  \<^verbatim>\<open>nullMessage\<close>): the subclass is the tag, tested by \<^verbatim>\<open>instanceof\<close>.
\<close>

datatype StoredMessage =
    NoMessage DefaultLogFields
  | StoredCreateJobMessage DefaultLogFields
  | StoredMarkJobAsDoneMessage DefaultLogFields

fun commit_of :: "StoredMessage \<Rightarrow> DefaultLogFields" where
  "commit_of (NoMessage c) = c"
| "commit_of (StoredCreateJobMessage c) = c"
| "commit_of (StoredMarkJobAsDoneMessage c) = c"

definition commitHash :: "StoredMessage \<Rightarrow> js_string" where
  "commitHash m = hash (commit_of m)"

definition payload :: "StoredMessage \<Rightarrow> js_string" where
  "payload m = trim (body (commit_of m))"

fun StoredMessage_isEmpty :: "StoredMessage \<Rightarrow> bool" where
  "StoredMessage_isEmpty (NoMessage c) = True"
| "StoredMessage_isEmpty (StoredCreateJobMessage c) = False"
| "StoredMessage_isEmpty (StoredMarkJobAsDoneMessage c) = False"

definition nullMessage :: StoredMessage where
  "nullMessage = NoMessage \<lparr>hash = [], date = [], message = js ''no-message'', refs = [],
     body = [], author_name = [], author_email = []\<rparr>"

text \<open>
  Every \<^verbatim>\<open>throw\<close> of the sources builds a plain \<^verbatim>\<open>Error\<close> from a message; the
  constructors name the throw sites and carry what the message interpolates.
  \<open>GitFault\<close> is an error raised by the version-control collaborator.
  \<open>error_message\<close> is the \<^verbatim>\<open>message\<close> property the code reads in its
  \<^verbatim>\<open>catch\<close> clause.
\<close>

datatype error =
    NotARepository js_string
  | JobAlreadyPending js_string
  | NoPendingJob
  | UnrecognizedEvent js_string
  | InvalidMessageType
  | GitFault js_string

fun error_message :: "error \<Rightarrow> js_string" where
  "error_message (NotARepository dir) = js ''Invalid git dir: '' @ dir"
| "error_message (JobAlreadyPending h) =
     js ''Can't create a new job. There is already a pending job in commit: '' @ h"
| "error_message NoPendingJob = js ''Can't mark job as done. There isn't any pending job''"
| "error_message (UnrecognizedEvent h) = js ''Invalid queue message in commit: '' @ h"
| "error_message InvalidMessageType = js ''Invalid Message type: object''"
| "error_message (GitFault m) = m"

definition CREATE_JOB_SUBJECT_PREFIX :: js_string where
  "CREATE_JOB_SUBJECT_PREFIX = js ''CLAIM LOCK: JOB: ''"

definition MARK_JOB_AS_DONE_SUBJECT_PREFIX :: js_string where
  "MARK_JOB_AS_DONE_SUBJECT_PREFIX = js ''RELEASE LOCK: JOB DONE: ''"

text \<open>
  Modelled from the spec: \<^verbatim>\<open>messageFactoryFromCommit\<close> of stored-message.ts, which is
  not among the sources. It takes the commit alone, and section 4.1 of the
  specification says that constructing an event from a commit that matches neither
  known prefix fails; the two prefix literals are those of section 6 (and of the
  sources' constants). The error is the one the sources' own factory throws.
\<close>

definition messageFactoryFromCommit :: "DefaultLogFields \<Rightarrow> error + StoredMessage" where
  "messageFactoryFromCommit c =
     (if startsWith (message c) CREATE_JOB_SUBJECT_PREFIX then Inr (StoredCreateJobMessage c)
      else if startsWith (message c) MARK_JOB_AS_DONE_SUBJECT_PREFIX
        then Inr (StoredMarkJobAsDoneMessage c)
      else Inl (UnrecognizedEvent (hash c)))"

text \<open>
  \<^verbatim>\<open>commits.map(commit => messageFactoryFromCommit(commit))\<close>: the commits are
  converted in order and the first \<^verbatim>\<open>throw\<close> ends the whole map.
\<close>

fun map_messageFactory :: "DefaultLogFields list \<Rightarrow> error + StoredMessage list" where
  "map_messageFactory [] = Inr []"
| "map_messageFactory (c # cs) =
     (case messageFactoryFromCommit c of
        Inl e \<Rightarrow> Inl e
      | Inr m \<Rightarrow> (case map_messageFactory cs of Inl e \<Rightarrow> Inl e | Inr ms \<Rightarrow> Inr (m # ms)))"

text \<open>The messages to be written (message.ts): the subclass is the tag, the payload its field.\<close>

datatype Message =
    CreateJobMessage js_string
  | MarkJobAsDoneMessage js_string
  | OtherMessage js_string

fun getPayload :: "Message \<Rightarrow> js_string" where
  "getPayload (CreateJobMessage p) = p"
| "getPayload (MarkJobAsDoneMessage p) = p"
| "getPayload (OtherMessage p) = p"

datatype Commit = Commit js_string

section \<open>Commit options\<close>

text \<open>
  The classes \<^verbatim>\<open>CommitAuthor\<close> and \<^verbatim>\<open>SigningKeyId\<close> are not among the sources;
  \<^verbatim>\<open>forSimpleGit\<close> only calls their \<^verbatim>\<open>isEmpty()\<close> and \<^verbatim>\<open>toString()\<close>, so a value
  of either class is the pair of what these two methods answer.
\<close>

record CommitAuthor =
  author_isEmpty :: bool
  author_toString :: js_string

record SigningKeyId =
  key_isEmpty :: bool
  key_toString :: js_string

record CommitOptions =
  author :: CommitAuthor
  gpgSig :: SigningKeyId
  noGpgSig :: bool

text \<open>
  The object literal \<^verbatim>\<open>forSimpleGit\<close> returns, as the list of its properties in
  insertion order; \<^verbatim>\<open>null\<close> is \<open>None\<close>. Spreading \<^verbatim>\<open>false\<close> adds nothing.
\<close>

type_synonym git_options = "(js_string \<times> js_string option) list"

definition forSimpleGit :: "CommitOptions \<Rightarrow> git_options" where
  "forSimpleGit opts =
     [(js ''--allow-empty'', None)]
     @ (if \<not> author_isEmpty (author opts)
        then [(js ''--author'', Some ([0x22] @ author_toString (author opts) @ [0x22]))] else [])
     @ (if \<not> key_isEmpty (gpgSig opts)
        then [(js ''--gpg-sign'', Some (key_toString (gpgSig opts)))] else [])
     @ (if noGpgSig opts then [(js ''--no-gpg-sign'', None)] else [])"

section \<open>The version-control collaborator\<close>

text \<open>
  The queue talks to its repository through a \<^verbatim>\<open>SimpleGit\<close> handle, an external
  collaborator. Its state is explicit here: the commits of the current branch (most
  recent first), what the remote has received, and what each call answers. A fault
  field holds the message of the error a call of that kind raises, if it raises one.
  \<open>fresh_hash\<close> gives the identifier the collaborator assigns to the next commit of
  a branch that has \<open>n\<close> commits. \<open>commit_calls\<close> records the arguments of every
  \<^verbatim>\<open>git.commit\<close> call, the latest first.
\<close>

record Git =
  checkIsRepo :: bool
  current :: js_string
  history :: "DefaultLogFields list"
  log_fault :: "js_string option"
  commit_fault :: "js_string option"
  remote :: js_string
  push_fault :: "js_string option"
  pushed :: "DefaultLogFields list"
  fresh_hash :: "nat \<Rightarrow> js_string"
  commit_calls :: "(js_string list \<times> git_options) list"

text \<open>
  The text the queue looks for in a failed log:
  \<^verbatim>\<open>fatal: your current branch '${currentBranch}' does not have any commits yet\<close>.
\<close>

definition noCommitsYet :: "js_string \<Rightarrow> js_string" where
  "noCommitsYet currentBranch =
     js ''fatal: your current branch '' @ [0x27] @ currentBranch @ [0x27]
     @ js '' does not have any commits yet''"

text \<open>
  \<^verbatim>\<open>git.log()\<close>: on a branch without commits the collaborator raises the error
  with the text above; any other fault carries its own message. \<open>history\<close> holds
  the entries as the log lists them, that is, as they come out of its parser.
\<close>

definition git_log :: "Git \<Rightarrow> error + DefaultLogFields list" where
  "git_log g =
     (case log_fault g of
        Some m \<Rightarrow> Inl (GitFault m)
      | None \<Rightarrow>
          if history g = [] then Inl (GitFault (noCommitsYet (current g)))
          else Inr (history g))"

text \<open>
  \<^verbatim>\<open>git.commit(message, options)\<close>: the first element of \<open>message\<close> becomes the
  subject of the new commit and the following ones its body (paragraphs separated by
  an empty line); the call answers the identifier under which the log lists the new
  commit from then on. This is a collaborator at its simplest: subject and body are
  listed as they were given, and the date, refs and author it records are left out.
  What a collaborator may do instead (clean the message, answer an abbreviated
  identifier, list an entry that its parser has cut) is left open further below.
\<close>

fun paragraphs :: "js_string list \<Rightarrow> js_string" where
  "paragraphs [] = []"
| "paragraphs [p] = p"
| "paragraphs (p # ps) = p @ [0xA, 0xA] @ paragraphs ps"

definition git_commit :: "js_string list \<Rightarrow> git_options \<Rightarrow> Git \<Rightarrow> (error + js_string) \<times> Git" where
  "git_commit msg options g =
     (case commit_fault g of
        Some m \<Rightarrow> (Inl (GitFault m), g)
      | None \<Rightarrow>
          (let h = fresh_hash g (length (history g));
               c = \<lparr>hash = h, date = [], message = (case msg of [] \<Rightarrow> [] | s # _ \<Rightarrow> s),
                    refs = [], body = paragraphs (tl msg), author_name = [],
                    author_email = []\<rparr>
           in (Inr h, g\<lparr>history := c # history g,
                        commit_calls := (msg, options) # commit_calls g\<rparr>)))"

text \<open>\<^verbatim>\<open>git.push()\<close>: the remote receives the branch, or the push is rejected.\<close>

definition git_push :: "Git \<Rightarrow> (error + unit) \<times> Git" where
  "git_push g =
     (case push_fault g of
        Some m \<Rightarrow> (Inl (GitFault m), g)
      | None \<Rightarrow> (Inr (), g\<lparr>pushed := history g\<rparr>))"

section \<open>The queue\<close>

text \<open>
  The fields of class \<^verbatim>\<open>Queue\<close>; its \<^verbatim>\<open>git\<close> handle is the \<open>Git\<close> state that every
  method below takes, and returns when it changes it. A method that can throw returns
  the error on the left.
\<close>

record Queue =
  name :: js_string
  gitRepoDir :: js_string
  storedMessages :: "StoredMessage list"

definition commitBelongsToQueue :: "Queue \<Rightarrow> DefaultLogFields \<Rightarrow> bool" where
  "commitBelongsToQueue q c = (if endsWith (message c) (name q) then True else False)"

text \<open>
  \<^verbatim>\<open>loadMessagesFromGit\<close>: the \<^verbatim>\<open>try\<close> block is \<open>attempt\<close>; the \<^verbatim>\<open>catch\<close> clause
  swallows an error whose message includes the no-commits text, leaving
  \<^verbatim>\<open>storedMessages\<close> as it was, and rethrows any other.
\<close>

definition loadMessagesFromGit :: "Queue \<Rightarrow> Git \<Rightarrow> error + Queue" where
  "loadMessagesFromGit q g =
     (if \<not> checkIsRepo g then Inl (NotARepository (gitRepoDir q))
      else
        (let currentBranch = current g;
             attempt =
               (case git_log g of
                  Inl err \<Rightarrow> Inl err
                | Inr all \<Rightarrow> map_messageFactory (filter (commitBelongsToQueue q) all))
         in case attempt of
              Inr msgs \<Rightarrow> Inr (q\<lparr>storedMessages := msgs\<rparr>)
            | Inl err \<Rightarrow>
                if includes_str (error_message err) (noCommitsYet currentBranch) then Inr q
                else Inl err))"

text \<open>\<^verbatim>\<open>Queue.create\<close>: the constructor, then the first load.\<close>

definition create :: "js_string \<Rightarrow> js_string \<Rightarrow> Git \<Rightarrow> error + Queue" where
  "create nm dir g =
     loadMessagesFromGit \<lparr>name = nm, gitRepoDir = dir, storedMessages = []\<rparr> g"

definition Queue_isEmpty :: "Queue \<Rightarrow> bool" where
  "Queue_isEmpty q = (length (storedMessages q) = 0)"

definition getLatestMessage :: "Queue \<Rightarrow> StoredMessage" where
  "getLatestMessage q =
     (if Queue_isEmpty q then nullMessage
      else (case storedMessages q of m # _ \<Rightarrow> m | [] \<Rightarrow> nullMessage))"

definition getNextJob :: "Queue \<Rightarrow> StoredMessage" where
  "getNextJob q =
     (let latestMessage = getLatestMessage q
      in case latestMessage of
           StoredCreateJobMessage c \<Rightarrow> latestMessage
         | NoMessage c \<Rightarrow> nullMessage
         | StoredMarkJobAsDoneMessage c \<Rightarrow> nullMessage)"

definition guardThatThereIsNoPendingJobs :: "Queue \<Rightarrow> error + unit" where
  "guardThatThereIsNoPendingJobs q =
     (if \<not> StoredMessage_isEmpty (getNextJob q)
      then Inl (JobAlreadyPending (commitHash (getNextJob q)))
      else Inr ())"

definition guardThatThereIsAPendingJob :: "Queue \<Rightarrow> error + unit" where
  "guardThatThereIsAPendingJob q =
     (if StoredMessage_isEmpty (getNextJob q) then Inl NoPendingJob else Inr ())"

text \<open>
  \<^verbatim>\<open>commit\<close>: commit, reload the messages, answer the new commit. An error of the
  reload leaves the commit made.
\<close>

definition commit :: "Queue \<Rightarrow> js_string list \<Rightarrow> CommitOptions \<Rightarrow> Git \<Rightarrow> (error + Commit) \<times> Queue \<times> Git" where
  "commit q msg commitOptions g =
     (case git_commit msg (forSimpleGit commitOptions) g of
        (Inl err, g') \<Rightarrow> (Inl err, q, g')
      | (Inr h, g') \<Rightarrow>
          (case loadMessagesFromGit q g' of
             Inl err \<Rightarrow> (Inl err, q, g')
           | Inr q' \<Rightarrow> (Inr (Commit h), q', g')))"

text \<open>
  \<^verbatim>\<open>push\<close>: \<^verbatim>\<open>this.git.push()\<close> is called when \<^verbatim>\<open>git remote\<close> prints something, and
  its promise is neither awaited nor returned, so \<^verbatim>\<open>push\<close> itself never fails on a
  rejected push.
\<close>

definition push :: "Git \<Rightarrow> (error + unit) \<times> Git" where
  "push g =
     (if remote g \<noteq> [] then (case git_push g of (outcome, g') \<Rightarrow> (Inr (), g'))
      else (Inr (), g))"

text \<open>
  \<^verbatim>\<open>commitAndPush\<close>: \<^verbatim>\<open>this.push()\<close> is called without \<^verbatim>\<open>await\<close> and what it
  answers is dropped. The push is taken to run to its end before the next call on
  the queue.
\<close>

definition commitAndPush :: "Queue \<Rightarrow> js_string list \<Rightarrow> CommitOptions \<Rightarrow> Git \<Rightarrow> (error + Commit) \<times> Queue \<times> Git" where
  "commitAndPush q msg commitOptions g =
     (case commit q msg commitOptions g of
        (Inl err, q', g') \<Rightarrow> (Inl err, q', g')
      | (Inr c, q', g') \<Rightarrow> (case push g' of (outcome, g'') \<Rightarrow> (Inr c, q', g'')))"

definition buildCommitMessage :: "Queue \<Rightarrow> Message \<Rightarrow> error + js_string list" where
  "buildCommitMessage q m =
     (case m of
        CreateJobMessage p \<Rightarrow> Inr [CREATE_JOB_SUBJECT_PREFIX @ name q, getPayload m]
      | MarkJobAsDoneMessage p \<Rightarrow> Inr [MARK_JOB_AS_DONE_SUBJECT_PREFIX @ name q, getPayload m]
      | OtherMessage p \<Rightarrow> Inl InvalidMessageType)"

definition commitMessage :: "Queue \<Rightarrow> Message \<Rightarrow> CommitOptions \<Rightarrow> Git \<Rightarrow> (error + Commit) \<times> Queue \<times> Git" where
  "commitMessage q m commitOptions g =
     (case buildCommitMessage q m of
        Inl err \<Rightarrow> (Inl err, q, g)
      | Inr msg \<Rightarrow> commitAndPush q msg commitOptions g)"

definition createJob :: "Queue \<Rightarrow> js_string \<Rightarrow> CommitOptions \<Rightarrow> Git \<Rightarrow> (error + Commit) \<times> Queue \<times> Git" where
  "createJob q p commitOptions g =
     (case guardThatThereIsNoPendingJobs q of
        Inl err \<Rightarrow> (Inl err, q, g)
      | Inr u \<Rightarrow> commitMessage q (CreateJobMessage p) commitOptions g)"

definition markJobAsDone :: "Queue \<Rightarrow> js_string \<Rightarrow> CommitOptions \<Rightarrow> Git \<Rightarrow> (error + Commit) \<times> Queue \<times> Git" where
  "markJobAsDone q p commitOptions g =
     (case guardThatThereIsAPendingJob q of
        Inl err \<Rightarrow> (Inl err, q, g)
      | Inr u \<Rightarrow> commitMessage q (MarkJobAsDoneMessage p) commitOptions g)"

section \<open>The commit of the collaborator left open\<close>

text \<open>
  \<open>git_commit\<close> above is a collaborator that lists a commit exactly as it was given and
  answers the hash under which it lists it. What the collaborator really answers to
  \<^verbatim>\<open>git.commit\<close>, and how \<^verbatim>\<open>git.log()\<close> lists the new commit afterwards (after git has
  cleaned the message and the log's output has been parsed), is not decided by the
  sources of the queue. A \<open>commit_behaviour\<close> gives both, for the repository, the message
  and the options of the call: the answer of the call and the entry that the log lists
  for the new commit from then on. \<open>createJob_as K\<close> and the methods on its path are the
  methods of the queue as above, with \<open>K\<close> for the behaviour of the collaborator;
  \<open>asGiven\<close> is the behaviour of \<open>git_commit\<close>.
\<close>

type_synonym commit_behaviour =
  "Git \<Rightarrow> js_string list \<Rightarrow> git_options \<Rightarrow> js_string \<times> DefaultLogFields"

definition git_commit_as :: "commit_behaviour \<Rightarrow> js_string list \<Rightarrow> git_options \<Rightarrow> Git \<Rightarrow> (error + js_string) \<times> Git" where
  "git_commit_as K msg options g =
     (case commit_fault g of
        Some m \<Rightarrow> (Inl (GitFault m), g)
      | None \<Rightarrow>
          (case K g msg options of
             (answer, entry) \<Rightarrow>
               (Inr answer, g\<lparr>history := entry # history g,
                              commit_calls := (msg, options) # commit_calls g\<rparr>)))"

definition commit_as :: "commit_behaviour \<Rightarrow> Queue \<Rightarrow> js_string list \<Rightarrow> CommitOptions \<Rightarrow> Git \<Rightarrow> (error + Commit) \<times> Queue \<times> Git" where
  "commit_as K q msg commitOptions g =
     (case git_commit_as K msg (forSimpleGit commitOptions) g of
        (Inl err, g') \<Rightarrow> (Inl err, q, g')
      | (Inr h, g') \<Rightarrow>
          (case loadMessagesFromGit q g' of
             Inl err \<Rightarrow> (Inl err, q, g')
           | Inr q' \<Rightarrow> (Inr (Commit h), q', g')))"

definition commitAndPush_as :: "commit_behaviour \<Rightarrow> Queue \<Rightarrow> js_string list \<Rightarrow> CommitOptions \<Rightarrow> Git \<Rightarrow> (error + Commit) \<times> Queue \<times> Git" where
  "commitAndPush_as K q msg commitOptions g =
     (case commit_as K q msg commitOptions g of
        (Inl err, q', g') \<Rightarrow> (Inl err, q', g')
      | (Inr c, q', g') \<Rightarrow> (case push g' of (outcome, g'') \<Rightarrow> (Inr c, q', g'')))"

definition commitMessage_as :: "commit_behaviour \<Rightarrow> Queue \<Rightarrow> Message \<Rightarrow> CommitOptions \<Rightarrow> Git \<Rightarrow> (error + Commit) \<times> Queue \<times> Git" where
  "commitMessage_as K q m commitOptions g =
     (case buildCommitMessage q m of
        Inl err \<Rightarrow> (Inl err, q, g)
      | Inr msg \<Rightarrow> commitAndPush_as K q msg commitOptions g)"

definition createJob_as :: "commit_behaviour \<Rightarrow> Queue \<Rightarrow> js_string \<Rightarrow> CommitOptions \<Rightarrow> Git \<Rightarrow> (error + Commit) \<times> Queue \<times> Git" where
  "createJob_as K q p commitOptions g =
     (case guardThatThereIsNoPendingJobs q of
        Inl err \<Rightarrow> (Inl err, q, g)
      | Inr u \<Rightarrow> commitMessage_as K q (CreateJobMessage p) commitOptions g)"

definition asGiven :: commit_behaviour where
  "asGiven g msg options =
     (fresh_hash g (length (history g)),
      \<lparr>hash = fresh_hash g (length (history g)), date = [],
        message = (case msg of [] \<Rightarrow> [] | s # _ \<Rightarrow> s), refs = [],
        body = paragraphs (tl msg), author_name = [], author_email = []\<rparr>)"

section \<open>Well-formed histories\<close>

text \<open>
  A commit is recognised when the factory accepts it; \<open>eventOf\<close> is the message the
  factory then builds. A repository is healthy for a queue when its log can be read and
  the factory accepts every commit of the branch that the queue's filter lets through.
  \<open>newCommit\<close> is the commit \<open>git_commit\<close> adds.
\<close>

definition recognised :: "DefaultLogFields \<Rightarrow> bool" where
  "recognised c = (startsWith (message c) CREATE_JOB_SUBJECT_PREFIX \<or>
     startsWith (message c) MARK_JOB_AS_DONE_SUBJECT_PREFIX)"

definition eventOf :: "DefaultLogFields \<Rightarrow> StoredMessage" where
  "eventOf c = (if startsWith (message c) CREATE_JOB_SUBJECT_PREFIX then StoredCreateJobMessage c
     else StoredMarkJobAsDoneMessage c)"

definition healthy :: "Queue \<Rightarrow> Git \<Rightarrow> bool" where
  "healthy q g = (log_fault g = None \<and>
     list_all recognised (filter (commitBelongsToQueue q) (history g)))"

definition newCommit :: "Git \<Rightarrow> js_string \<Rightarrow> js_string \<Rightarrow> DefaultLogFields" where
  "newCommit g s b = \<lparr>hash = fresh_hash g (length (history g)), date = [], message = s,
     refs = [], body = b, author_name = [], author_email = []\<rparr>"

section \<open>Example repositories\<close>

text \<open>
  Concrete values on which the theorems below are exercised: a repository whose branch
  \<open>main\<close> has no commits yet and no remote, a queue named \<open>Q\<close> as its constructor
  leaves it, and commit options without author and key that suppress signing.
\<close>

definition emptyRepository :: Git where
  "emptyRepository = \<lparr>checkIsRepo = True, current = js ''main'', history = [],
     log_fault = None, commit_fault = None, remote = [], push_fault = None, pushed = [],
     fresh_hash = (\<lambda>n. replicate (Suc n) 0x61), commit_calls = []\<rparr>"

definition queueQ :: Queue where
  "queueQ = \<lparr>name = js ''Q'', gitRepoDir = js ''/repo'', storedMessages = []\<rparr>"

definition plainOptions :: CommitOptions where
  "plainOptions = \<lparr>author = \<lparr>author_isEmpty = True, author_toString = []\<rparr>,
     gpgSig = \<lparr>key_isEmpty = True, key_toString = []\<rparr>, noGpgSig = True\<rparr>"

text \<open>
  The same repository and queue after a job has been created on it: the branch holds one
  job-created commit of the queue and the queue has loaded it.
\<close>

definition pendingCommit :: DefaultLogFields where
  "pendingCommit = \<lparr>hash = js ''a'', date = [], message = js ''CLAIM LOCK: JOB: Q'',
     refs = [], body = js ''payload-1'', author_name = [], author_email = []\<rparr>"

definition queueQpending :: Queue where
  "queueQpending = queueQ\<lparr>storedMessages := [StoredCreateJobMessage pendingCommit]\<rparr>"

definition pendingRepository :: Git where
  "pendingRepository = emptyRepository\<lparr>history := [pendingCommit]\<rparr>"

text \<open>
  A second queue whose name ends with the name \<open>x\<close> of another, and the commit its first
  job makes; a commit made by hand whose subject happens to end with \<open>Q\<close>; and a
  repository with a remote that rejects every push.
\<close>

definition queueAX :: Queue where
  "queueAX = \<lparr>name = js ''ax'', gitRepoDir = js ''/repo'', storedMessages = []\<rparr>"

definition jobOnAX :: DefaultLogFields where
  "jobOnAX = \<lparr>hash = js ''a'', date = [], message = js ''CLAIM LOCK: JOB: ax'',
     refs = [], body = js ''payload-1'', author_name = [], author_email = []\<rparr>"

definition foreignCommit :: DefaultLogFields where
  "foreignCommit = \<lparr>hash = js ''b'', date = [], message = js ''Update FAQ'',
     refs = [], body = [], author_name = [], author_email = []\<rparr>"

definition rejectingRemote :: Git where
  "rejectingRemote = emptyRepository\<lparr>remote := js ''origin'',
     push_fault := Some (js ''rejected'')\<rparr>"

text \<open>
  A collaborator that treats a message as git does when it cleans it and lists it: the
  elements of the message are paragraphs, every line loses its trailing blanks, empty
  lines go from both ends and a run of empty lines becomes one; the subject is the first
  paragraph on one line, the body is what follows it, with a line feed after every
  line; the hash has forty characters and the commit call answers its first seven. The
  fields the queue never reads are left empty, and no field is taken to hold the
  separators at which the parser of the log splits. With it, a queue whose name \<open>Q\<close> is
  followed by a blank, and the entry the log lists for the first job of queue \<open>Q\<close> and
  of that queue alike.
\<close>

definition stripTrailingBlanks :: "js_string \<Rightarrow> js_string" where
  "stripTrailingBlanks s = rev (dropWhile (\<lambda>c. c = 0x20 \<or> c = 0x9 \<or> c = 0xD) (rev s))"

fun splitLines :: "js_string \<Rightarrow> js_string list" where
  "splitLines [] = [[]]"
| "splitLines (c # cs) =
     (if c = 0xA then [] # splitLines cs
      else (case splitLines cs of [] \<Rightarrow> [[c]] | l # ls \<Rightarrow> (c # l) # ls))"

fun collapseEmpty :: "js_string list \<Rightarrow> js_string list" where
  "collapseEmpty [] = []"
| "collapseEmpty [l] = [l]"
| "collapseEmpty (l # m # ls) =
     (if l = [] \<and> m = [] then collapseEmpty (m # ls) else l # collapseEmpty (m # ls))"

definition cleanLines :: "js_string \<Rightarrow> js_string list" where
  "cleanLines text =
     rev (dropWhile (\<lambda>l. l = [])
       (rev (collapseEmpty (dropWhile (\<lambda>l. l = [])
         (map stripTrailingBlanks (splitLines text))))))"

fun onOneLine :: "js_string list \<Rightarrow> js_string" where
  "onOneLine [] = []"
| "onOneLine [l] = l"
| "onOneLine (l # ls) = l @ [0x20] @ onOneLine ls"

definition gitLike :: commit_behaviour where
  "gitLike g msg options =
     (let h = replicate 40 (0x61 + of_nat (length (history g)));
          ls = cleanLines (paragraphs msg)
      in (take 7 h,
          \<lparr>hash = h, date = [],
            message = onOneLine (takeWhile (\<lambda>l. l \<noteq> []) ls), refs = [],
            body = concat (map (\<lambda>l. l @ [0xA])
              (dropWhile (\<lambda>l. l = []) (dropWhile (\<lambda>l. l \<noteq> []) ls))),
            author_name = [], author_email = []\<rparr>))"

definition queueQblank :: Queue where
  "queueQblank = \<lparr>name = js ''Q '', gitRepoDir = js ''/repo'', storedMessages = []\<rparr>"

definition listedJobOnQ :: DefaultLogFields where
  "listedJobOnQ = \<lparr>hash = replicate 40 0x61, date = [], message = js ''CLAIM LOCK: JOB: Q'',
     refs = [], body = js ''  payload-1'' @ [0xA], author_name = [], author_email = []\<rparr>"

definition listedTwoLines :: DefaultLogFields where
  "listedTwoLines = \<lparr>hash = replicate 40 0x61, date = [],
     message = js ''CLAIM LOCK: JOB: Q'', refs = [],
     body = js ''a'' @ [0xA] @ js ''b'' @ [0xA], author_name = [], author_email = []\<rparr>"

section \<open>Properties of the operations\<close>

lemma getNextJob_cases:
  "getNextJob q = (case storedMessages q of
      StoredCreateJobMessage c # ms \<Rightarrow> StoredCreateJobMessage c | _ \<Rightarrow> nullMessage)"
  by (simp add: getNextJob_def getLatestMessage_def Queue_isEmpty_def
      split: list.splits StoredMessage.splits)

lemma nullMessage_isEmpty [simp]: "StoredMessage_isEmpty nullMessage"
  by (simp add: nullMessage_def)

lemma factory_recognised: "recognised c \<Longrightarrow> messageFactoryFromCommit c = Inr (eventOf c)"
  by (auto simp: recognised_def messageFactoryFromCommit_def eventOf_def)

lemma factory_unrecognised:
  "\<not> recognised c \<Longrightarrow> messageFactoryFromCommit c = Inl (UnrecognizedEvent (hash c))"
  by (auto simp: recognised_def messageFactoryFromCommit_def)

lemma map_messageFactory_all:
  "list_all recognised cs \<Longrightarrow> map_messageFactory cs = Inr (map eventOf cs)"
  by (induction cs) (auto simp: factory_recognised)

lemma map_messageFactory_Inl:
  "map_messageFactory cs = Inl e \<Longrightarrow> \<exists>h. e = UnrecognizedEvent h"
  by (induction cs) (auto simp: messageFactoryFromCommit_def split: if_splits sum.splits)

lemma load_healthy:
  assumes "healthy q g" "checkIsRepo g" "history g \<noteq> []"
  shows "loadMessagesFromGit q g =
    Inr (q\<lparr>storedMessages := map eventOf (filter (commitBelongsToQueue q) (history g))\<rparr>)"
  using assms by (simp add: healthy_def loadMessagesFromGit_def git_log_def map_messageFactory_all)

lemma create_subject_event:
  "eventOf (newCommit g (CREATE_JOB_SUBJECT_PREFIX @ n) b) =
     StoredCreateJobMessage (newCommit g (CREATE_JOB_SUBJECT_PREFIX @ n) b)"
  by (simp add: eventOf_def newCommit_def startsWith_def)

lemma done_subject_event:
  "eventOf (newCommit g (MARK_JOB_AS_DONE_SUBJECT_PREFIX @ n) b) =
     StoredMarkJobAsDoneMessage (newCommit g (MARK_JOB_AS_DONE_SUBJECT_PREFIX @ n) b)"
  by (simp add: eventOf_def newCommit_def startsWith_def CREATE_JOB_SUBJECT_PREFIX_def
      MARK_JOB_AS_DONE_SUBJECT_PREFIX_def js_def)

lemma own_subject_recognised:
  "recognised (newCommit g (CREATE_JOB_SUBJECT_PREFIX @ n) b)"
  "recognised (newCommit g (MARK_JOB_AS_DONE_SUBJECT_PREFIX @ n) b)"
  by (simp_all add: recognised_def newCommit_def startsWith_def)

lemma own_subject_belongs:
  "commitBelongsToQueue q (newCommit g (pre @ name q) b)"
  by (simp add: commitBelongsToQueue_def endsWith_def newCommit_def suffix_def)

lemma git_commit_ok:
  "commit_fault g = None \<Longrightarrow> git_commit [s, b] options g =
     (Inr (fresh_hash g (length (history g))),
      g\<lparr>history := newCommit g s b # history g,
        commit_calls := ([s, b], options) # commit_calls g\<rparr>)"
  by (simp add: git_commit_def newCommit_def Let_def)

lemma push_fields [simp]:
  "history (snd (push g)) = history g"
  "log_fault (snd (push g)) = log_fault g"
  "commit_fault (snd (push g)) = commit_fault g"
  "checkIsRepo (snd (push g)) = checkIsRepo g"
  "current (snd (push g)) = current g"
  "fresh_hash (snd (push g)) = fresh_hash g"
  "commit_calls (snd (push g)) = commit_calls g"
  by (simp_all add: push_def git_push_def split: option.splits)


lemma commit_healthy:
  assumes "healthy q g" "checkIsRepo g" "commit_fault g = None"
    and "recognised (newCommit g (pre @ name q) b)"
  shows "commit q [pre @ name q, b] opts g =
    (Inr (Commit (fresh_hash g (length (history g)))),
     q\<lparr>storedMessages := eventOf (newCommit g (pre @ name q) b)
        # map eventOf (filter (commitBelongsToQueue q) (history g))\<rparr>,
     g\<lparr>history := newCommit g (pre @ name q) b # history g,
       commit_calls := ([pre @ name q, b], forSimpleGit opts) # commit_calls g\<rparr>)"
proof -
  let ?g1 = "g\<lparr>history := newCommit g (pre @ name q) b # history g,
       commit_calls := ([pre @ name q, b], forSimpleGit opts) # commit_calls g\<rparr>"
  have h1: "healthy q ?g1"
    using assms(1,4) by (simp add: healthy_def)
  have "loadMessagesFromGit q ?g1 =
      Inr (q\<lparr>storedMessages := map eventOf (filter (commitBelongsToQueue q) (history ?g1))\<rparr>)"
    using h1 assms(2) by (intro load_healthy) simp_all
  then show ?thesis
    using assms(3) by (simp add: commit_def git_commit_ok own_subject_belongs)
qed

lemma commit_Inr_facts:
  "commit q msg opts g = (Inr c, q', g') \<Longrightarrow> checkIsRepo g \<and> commit_fault g = None"
  by (auto simp: commit_def git_commit_def loadMessagesFromGit_def Let_def
      split: option.splits sum.splits if_splits prod.splits)

lemma commitAndPush_Inr_facts:
  "commitAndPush q msg opts g = (Inr c, q', g') \<Longrightarrow> checkIsRepo g \<and> commit_fault g = None"
  by (auto simp: commitAndPush_def split: prod.splits sum.splits dest: commit_Inr_facts)

lemma commitAndPush_healthy:
  assumes "healthy q g" "checkIsRepo g" "commit_fault g = None"
    and "recognised (newCommit g (pre @ name q) b)"
  shows "commitAndPush q [pre @ name q, b] opts g =
    (Inr (Commit (fresh_hash g (length (history g)))),
     q\<lparr>storedMessages := eventOf (newCommit g (pre @ name q) b)
        # map eventOf (filter (commitBelongsToQueue q) (history g))\<rparr>,
     snd (push (g\<lparr>history := newCommit g (pre @ name q) b # history g,
       commit_calls := ([pre @ name q, b], forSimpleGit opts) # commit_calls g\<rparr>)))"
  by (simp add: commitAndPush_def commit_healthy [OF assms] split: prod.splits)

lemma createJob_healthy:
  assumes "healthy q g" "checkIsRepo g" "commit_fault g = None"
    and "StoredMessage_isEmpty (getNextJob q)"
  shows "createJob q p opts g =
    (Inr (Commit (fresh_hash g (length (history g)))),
     q\<lparr>storedMessages :=
        StoredCreateJobMessage (newCommit g (CREATE_JOB_SUBJECT_PREFIX @ name q) p)
        # map eventOf (filter (commitBelongsToQueue q) (history g))\<rparr>,
     snd (push (g\<lparr>history := newCommit g (CREATE_JOB_SUBJECT_PREFIX @ name q) p # history g,
       commit_calls := ([CREATE_JOB_SUBJECT_PREFIX @ name q, p], forSimpleGit opts)
         # commit_calls g\<rparr>)))"
  using assms(4)
  by (simp add: createJob_def guardThatThereIsNoPendingJobs_def commitMessage_def
      buildCommitMessage_def
      commitAndPush_healthy [OF assms(1-3) own_subject_recognised(1)] create_subject_event)

lemma markJobAsDone_healthy:
  assumes "healthy q g" "checkIsRepo g" "commit_fault g = None"
    and "\<not> StoredMessage_isEmpty (getNextJob q)"
  shows "markJobAsDone q p opts g =
    (Inr (Commit (fresh_hash g (length (history g)))),
     q\<lparr>storedMessages :=
        StoredMarkJobAsDoneMessage (newCommit g (MARK_JOB_AS_DONE_SUBJECT_PREFIX @ name q) p)
        # map eventOf (filter (commitBelongsToQueue q) (history g))\<rparr>,
     snd (push (g\<lparr>history := newCommit g (MARK_JOB_AS_DONE_SUBJECT_PREFIX @ name q) p # history g,
       commit_calls := ([MARK_JOB_AS_DONE_SUBJECT_PREFIX @ name q, p], forSimpleGit opts)
         # commit_calls g\<rparr>)))"
  using assms(4)
  by (simp add: markJobAsDone_def guardThatThereIsAPendingJob_def commitMessage_def
      buildCommitMessage_def
      commitAndPush_healthy [OF assms(1-3) own_subject_recognised(2)] done_subject_event)

lemma createJob_Inr_facts:
  "createJob q p opts g = (Inr c, q', g') \<Longrightarrow>
     StoredMessage_isEmpty (getNextJob q) \<and> checkIsRepo g \<and> commit_fault g = None"
  by (auto simp: createJob_def guardThatThereIsNoPendingJobs_def commitMessage_def
      buildCommitMessage_def split: if_splits dest: commitAndPush_Inr_facts)

lemma markJobAsDone_Inr_facts:
  "markJobAsDone q p opts g = (Inr c, q', g') \<Longrightarrow>
     \<not> StoredMessage_isEmpty (getNextJob q) \<and> checkIsRepo g \<and> commit_fault g = None"
  by (auto simp: markJobAsDone_def guardThatThereIsAPendingJob_def commitMessage_def
      buildCommitMessage_def split: if_splits dest: commitAndPush_Inr_facts)

lemma commitBelongsToQueue_name:
  "name q' = name q \<Longrightarrow> commitBelongsToQueue q' = commitBelongsToQueue q"
  by (rule ext) (simp add: commitBelongsToQueue_def)

lemma healthy_after_commit:
  assumes "healthy q g" "recognised c" "name q' = name q"
  shows "healthy q' (snd (push (g\<lparr>history := c # history g, commit_calls := cc\<rparr>)))"
  using assms(1,2) by (simp add: healthy_def commitBelongsToQueue_name [OF assms(3)])

lemma loadMessagesFromGit_Inl:
  "loadMessagesFromGit q g = Inl e \<Longrightarrow>
     (\<exists>d. e = NotARepository d) \<or> (\<exists>h. e = UnrecognizedEvent h) \<or> (\<exists>m. e = GitFault m)"
  by (auto simp: loadMessagesFromGit_def git_log_def Let_def
      split: if_splits sum.splits option.splits dest: map_messageFactory_Inl)

lemma commitAndPush_Inl:
  "commitAndPush q msg opts g = (Inl e, q', g') \<Longrightarrow>
     (\<exists>d. e = NotARepository d) \<or> (\<exists>h. e = UnrecognizedEvent h) \<or> (\<exists>m. e = GitFault m)"
  by (auto simp: commitAndPush_def commit_def git_commit_def Let_def
      split: prod.splits sum.splits option.splits dest: loadMessagesFromGit_Inl)

lemma trim_decomposition:
  "\<exists>l r. s = l @ trim s @ r \<and> list_all isWhiteSpace l \<and> list_all isWhiteSpace r"
proof -
  let ?t = "dropWhile isWhiteSpace (rev s)"
  have a: "s = rev ?t @ rev (takeWhile isWhiteSpace (rev s))"
    by (metis rev_append rev_rev_ident takeWhile_dropWhile_id)
  have b: "rev ?t = takeWhile isWhiteSpace (rev ?t) @ trim s"
    by (simp add: trim_def)
  have "s = takeWhile isWhiteSpace (rev ?t) @ trim s @ rev (takeWhile isWhiteSpace (rev s))"
    using a b by (metis append.assoc)
  moreover have "list_all isWhiteSpace (takeWhile isWhiteSpace (rev ?t))"
    by (auto simp: list_all_iff dest: set_takeWhileD)
  moreover have "list_all isWhiteSpace (rev (takeWhile isWhiteSpace (rev s)))"
    by (auto simp: list_all_iff dest: set_takeWhileD)
  ultimately show ?thesis by blast
qed

lemma last_dropWhile_keep:
  "dropWhile P xs \<noteq> [] \<Longrightarrow> last (dropWhile P xs) = last xs"
  by (metis last_appendR takeWhile_dropWhile_id)

lemma trim_ends:
  assumes "trim s \<noteq> []"
  shows "\<not> isWhiteSpace (hd (trim s)) \<and> \<not> isWhiteSpace (last (trim s))"
proof -
  let ?t = "dropWhile isWhiteSpace (rev s)"
  have ne: "?t \<noteq> []" using assms by (cases "?t") (simp_all add: trim_def)
  have "last (trim s) = last (rev ?t)"
    using assms unfolding trim_def by (rule last_dropWhile_keep)
  also have "\<dots> = hd ?t" using ne by (simp add: last_rev)
  finally have "\<not> isWhiteSpace (last (trim s))" using ne by (simp add: hd_dropWhile)
  moreover have "\<not> isWhiteSpace (hd (trim s))"
    using assms unfolding trim_def by (rule hd_dropWhile)
  ultimately show ?thesis by simp
qed

lemma createJob_Inr_healthy:
  assumes "healthy q g" and "createJob q p opts g = (Inr c, q', g')"
  shows "c = Commit (fresh_hash g (length (history g)))"
    and "q' = q\<lparr>storedMessages :=
        StoredCreateJobMessage (newCommit g (CREATE_JOB_SUBJECT_PREFIX @ name q) p)
        # map eventOf (filter (commitBelongsToQueue q) (history g))\<rparr>"
    and "g' = snd (push (g\<lparr>history :=
          newCommit g (CREATE_JOB_SUBJECT_PREFIX @ name q) p # history g,
        commit_calls := ([CREATE_JOB_SUBJECT_PREFIX @ name q, p], forSimpleGit opts)
          # commit_calls g\<rparr>))"
    and "healthy q' g'" and "checkIsRepo g'" and "commit_fault g' = None"
proof -
  note f = createJob_Inr_facts [OF assms(2)]
  from assms(2) createJob_healthy [of q g p opts] assms(1) f
  show c: "c = Commit (fresh_hash g (length (history g)))"
    and q': "q' = q\<lparr>storedMessages :=
        StoredCreateJobMessage (newCommit g (CREATE_JOB_SUBJECT_PREFIX @ name q) p)
        # map eventOf (filter (commitBelongsToQueue q) (history g))\<rparr>"
    and g': "g' = snd (push (g\<lparr>history :=
          newCommit g (CREATE_JOB_SUBJECT_PREFIX @ name q) p # history g,
        commit_calls := ([CREATE_JOB_SUBJECT_PREFIX @ name q, p], forSimpleGit opts)
          # commit_calls g\<rparr>))"
    by simp_all
  show "healthy q' g'"
    unfolding g' using assms(1) own_subject_recognised(1)
    by (rule healthy_after_commit) (simp add: q')
  show "checkIsRepo g'" "commit_fault g' = None"
    using f by (simp_all add: g')
qed

lemma markJobAsDone_Inr_healthy:
  assumes "healthy q g" and "markJobAsDone q p opts g = (Inr c, q', g')"
  shows "c = Commit (fresh_hash g (length (history g)))"
    and "q' = q\<lparr>storedMessages :=
        StoredMarkJobAsDoneMessage (newCommit g (MARK_JOB_AS_DONE_SUBJECT_PREFIX @ name q) p)
        # map eventOf (filter (commitBelongsToQueue q) (history g))\<rparr>"
    and "g' = snd (push (g\<lparr>history :=
          newCommit g (MARK_JOB_AS_DONE_SUBJECT_PREFIX @ name q) p # history g,
        commit_calls := ([MARK_JOB_AS_DONE_SUBJECT_PREFIX @ name q, p], forSimpleGit opts)
          # commit_calls g\<rparr>))"
    and "healthy q' g'" and "checkIsRepo g'" and "commit_fault g' = None"
proof -
  note f = markJobAsDone_Inr_facts [OF assms(2)]
  from assms(2) markJobAsDone_healthy [of q g p opts] assms(1) f
  show c: "c = Commit (fresh_hash g (length (history g)))"
    and q': "q' = q\<lparr>storedMessages :=
        StoredMarkJobAsDoneMessage (newCommit g (MARK_JOB_AS_DONE_SUBJECT_PREFIX @ name q) p)
        # map eventOf (filter (commitBelongsToQueue q) (history g))\<rparr>"
    and g': "g' = snd (push (g\<lparr>history :=
          newCommit g (MARK_JOB_AS_DONE_SUBJECT_PREFIX @ name q) p # history g,
        commit_calls := ([MARK_JOB_AS_DONE_SUBJECT_PREFIX @ name q, p], forSimpleGit opts)
          # commit_calls g\<rparr>))"
    by simp_all
  show "healthy q' g'"
    unfolding g' using assms(1) own_subject_recognised(2)
    by (rule healthy_after_commit) (simp add: q')
  show "checkIsRepo g'" "commit_fault g' = None"
    using f by (simp_all add: g')
qed

lemma slot_free_after_done:
  assumes "healthy q g" and "createJob q p1 o1 g = (Inr c1, q1, g1)"
    and "markJobAsDone q1 p2 o2 g1 = (Inr c2, q2, g2)"
  shows "StoredMessage_isEmpty (getNextJob q2)"
    and "\<exists>c3 q3 g3. createJob q2 p3 o3 g2 = (Inr c3, q3, g3)"
proof -
  note one = createJob_Inr_healthy [OF assms(1,2)]
  note two = markJobAsDone_Inr_healthy [OF one(4) assms(3)]
  show e: "StoredMessage_isEmpty (getNextJob q2)"
    by (simp add: two(2) getNextJob_cases)
  show "\<exists>c3 q3 g3. createJob q2 p3 o3 g2 = (Inr c3, q3, g3)"
    using createJob_healthy [OF two(4,5,6) e] by blast
qed

lemma createJob_guard_fails:
  "\<not> StoredMessage_isEmpty (getNextJob q) \<Longrightarrow>
     createJob q p opts g = (Inl (JobAlreadyPending (commitHash (getNextJob q))), q, g)"
  by (simp add: createJob_def guardThatThereIsNoPendingJobs_def)

lemma markJobAsDone_guard_fails:
  "StoredMessage_isEmpty (getNextJob q) \<Longrightarrow>
     markJobAsDone q p opts g = (Inl NoPendingJob, q, g)"
  by (simp add: markJobAsDone_def guardThatThereIsAPendingJob_def)

lemma createJob_Inl_pending:
  assumes "createJob q p opts g = (Inl (JobAlreadyPending h), q', g')"
  shows "\<not> StoredMessage_isEmpty (getNextJob q)"
proof
  assume e: "StoredMessage_isEmpty (getNextJob q)"
  with assms have "commitAndPush q [CREATE_JOB_SUBJECT_PREFIX @ name q, p] opts g
      = (Inl (JobAlreadyPending h), q', g')"
    by (simp add: createJob_def guardThatThereIsNoPendingJobs_def commitMessage_def
        buildCommitMessage_def)
  from commitAndPush_Inl [OF this] show False by simp
qed

lemma markJobAsDone_Inl_no_pending:
  assumes "markJobAsDone q p opts g = (Inl NoPendingJob, q', g')"
  shows "StoredMessage_isEmpty (getNextJob q)"
proof (rule ccontr)
  assume e: "\<not> StoredMessage_isEmpty (getNextJob q)"
  with assms have "commitAndPush q [MARK_JOB_AS_DONE_SUBJECT_PREFIX @ name q, p] opts g
      = (Inl NoPendingJob, q', g')"
    by (simp add: markJobAsDone_def guardThatThereIsAPendingJob_def commitMessage_def
        buildCommitMessage_def)
  from commitAndPush_Inl [OF this] show False by simp
qed

lemma commitAndPush_Inr_git:
  assumes "commitAndPush q [s, b] opts g = (Inr c, q', g')"
  shows "c = Commit (fresh_hash g (length (history g)))"
    and "g' = snd (push (g\<lparr>history := newCommit g s b # history g,
        commit_calls := ([s, b], forSimpleGit opts) # commit_calls g\<rparr>))"
proof -
  from commitAndPush_Inr_facts [OF assms] have cf: "commit_fault g = None" by simp
  from assms show "c = Commit (fresh_hash g (length (history g)))"
    by (auto simp: commitAndPush_def commit_def git_commit_ok [OF cf]
        split: prod.splits sum.splits)
  from assms show "g' = snd (push (g\<lparr>history := newCommit g s b # history g,
        commit_calls := ([s, b], forSimpleGit opts) # commit_calls g\<rparr>))"
    by (auto simp: commitAndPush_def commit_def git_commit_ok [OF cf]
        split: prod.splits sum.splits)
qed

lemma markJobAsDone_Inr_git:
  assumes "markJobAsDone q p opts g = (Inr c, q', g')"
  shows "c = Commit (fresh_hash g (length (history g)))"
    and "history g' = newCommit g (MARK_JOB_AS_DONE_SUBJECT_PREFIX @ name q) p # history g"
    and "commit_calls g' =
      ([MARK_JOB_AS_DONE_SUBJECT_PREFIX @ name q, p], forSimpleGit opts) # commit_calls g"
proof -
  from markJobAsDone_Inr_facts [OF assms] assms
  have "commitAndPush q [MARK_JOB_AS_DONE_SUBJECT_PREFIX @ name q, p] opts g = (Inr c, q', g')"
    by (simp add: markJobAsDone_def guardThatThereIsAPendingJob_def commitMessage_def
        buildCommitMessage_def)
  note r = commitAndPush_Inr_git [OF this]
  show "c = Commit (fresh_hash g (length (history g)))" by (rule r(1))
  show "history g' = newCommit g (MARK_JOB_AS_DONE_SUBJECT_PREFIX @ name q) p # history g"
    by (simp add: r(2))
  show "commit_calls g' =
      ([MARK_JOB_AS_DONE_SUBJECT_PREFIX @ name q, p], forSimpleGit opts) # commit_calls g"
    by (simp add: r(2))
qed






lemmas unfold_queue =
  createJob_def markJobAsDone_def guardThatThereIsNoPendingJobs_def
  guardThatThereIsAPendingJob_def getNextJob_def getLatestMessage_def Queue_isEmpty_def
  nullMessage_def commitMessage_def buildCommitMessage_def commitAndPush_def commit_def
  push_def git_push_def git_commit_def loadMessagesFromGit_def create_def git_log_def
  commitBelongsToQueue_def endsWith_def startsWith_def includes_str_def
  messageFactoryFromCommit_def CREATE_JOB_SUBJECT_PREFIX_def
  MARK_JOB_AS_DONE_SUBJECT_PREFIX_def noCommitsYet_def js_def suffix_to_prefix
  sublist_Cons_right Let_def

subsection \<open>Any behaviour of the collaborator\<close>

lemma git_commit_asGiven: "git_commit_as asGiven msg options g = git_commit msg options g"
  by (simp add: git_commit_as_def git_commit_def asGiven_def Let_def split: option.splits)

lemma commit_asGiven: "commit_as asGiven q msg opts g = commit q msg opts g"
  by (simp add: commit_as_def commit_def git_commit_asGiven)

lemma commitAndPush_asGiven:
  "commitAndPush_as asGiven q msg opts g = commitAndPush q msg opts g"
  by (simp add: commitAndPush_as_def commitAndPush_def commit_asGiven)

lemma commitMessage_asGiven:
  "commitMessage_as asGiven q m opts g = commitMessage q m opts g"
  by (simp add: commitMessage_as_def commitMessage_def commitAndPush_asGiven split: sum.splits)

lemma createJob_asGiven: "createJob_as asGiven q p opts g = createJob q p opts g"
  by (simp add: createJob_as_def createJob_def commitMessage_asGiven split: sum.splits)

lemma createJob_as_guard_fails:
  "\<not> StoredMessage_isEmpty (getNextJob q) \<Longrightarrow>
     createJob_as K q p opts g = (Inl (JobAlreadyPending (commitHash (getNextJob q))), q, g)"
  by (simp add: createJob_as_def guardThatThereIsNoPendingJobs_def)

lemma git_commit_as_ok:
  "commit_fault g = None \<Longrightarrow> K g msg options = (a, e) \<Longrightarrow>
     git_commit_as K msg options g =
       (Inr a, g\<lparr>history := e # history g, commit_calls := (msg, options) # commit_calls g\<rparr>)"
  by (simp add: git_commit_as_def)

lemma load_after_entry:
  assumes "healthy q g" "checkIsRepo g" "commitBelongsToQueue q e \<longrightarrow> recognised e"
  shows "loadMessagesFromGit q (g\<lparr>history := e # history g, commit_calls := cc\<rparr>) =
    Inr (q\<lparr>storedMessages := map eventOf (filter (commitBelongsToQueue q) (e # history g))\<rparr>)"
proof -
  let ?g1 = "g\<lparr>history := e # history g, commit_calls := cc\<rparr>"
  have "healthy q ?g1" using assms(1,3) by (simp add: healthy_def)
  from load_healthy [OF this] assms(2) show ?thesis by simp
qed

lemma createJob_as_Inr_facts:
  "createJob_as K q p opts g = (Inr c, q', g') \<Longrightarrow>
     StoredMessage_isEmpty (getNextJob q) \<and> checkIsRepo g \<and> commit_fault g = None"
  by (auto simp: createJob_as_def guardThatThereIsNoPendingJobs_def commitMessage_as_def
      buildCommitMessage_def commitAndPush_as_def commit_as_def git_commit_as_def
      loadMessagesFromGit_def Let_def
      split: if_splits prod.splits sum.splits option.splits)

lemma createJob_as_healthy:
  assumes "healthy q g" "checkIsRepo g" "commit_fault g = None"
    and "StoredMessage_isEmpty (getNextJob q)"
    and "K g [CREATE_JOB_SUBJECT_PREFIX @ name q, p] (forSimpleGit opts) = (a, e)"
    and "commitBelongsToQueue q e \<longrightarrow> recognised e"
  shows "createJob_as K q p opts g =
    (Inr (Commit a),
     q\<lparr>storedMessages := map eventOf (filter (commitBelongsToQueue q) (e # history g))\<rparr>,
     snd (push (g\<lparr>history := e # history g,
       commit_calls := ([CREATE_JOB_SUBJECT_PREFIX @ name q, p], forSimpleGit opts)
         # commit_calls g\<rparr>)))"
  using assms(4)
  by (simp add: createJob_as_def guardThatThereIsNoPendingJobs_def commitMessage_as_def
      buildCommitMessage_def commitAndPush_as_def commit_as_def
      git_commit_as_ok [of g K, OF assms(3,5)] load_after_entry [OF assms(1,2,6)]
      split: prod.splits)

lemma createJob_as_Inr_healthy:
  assumes "healthy q g" and "createJob_as K q p opts g = (Inr c, q', g')"
    and "K g [CREATE_JOB_SUBJECT_PREFIX @ name q, p] (forSimpleGit opts) = (a, e)"
    and "commitBelongsToQueue q e \<longrightarrow> recognised e"
  shows "c = Commit a"
    and "q' = q\<lparr>storedMessages :=
        map eventOf (filter (commitBelongsToQueue q) (e # history g))\<rparr>"
    and "g' = snd (push (g\<lparr>history := e # history g,
        commit_calls := ([CREATE_JOB_SUBJECT_PREFIX @ name q, p], forSimpleGit opts)
          # commit_calls g\<rparr>))"
    and "healthy q' g'" and "checkIsRepo g'" and "commit_fault g' = None"
proof -
  note f = createJob_as_Inr_facts [OF assms(2)]
  from assms(2) createJob_as_healthy [of q g K p opts a e] assms(1,3,4) f
  show c: "c = Commit a"
    and q': "q' = q\<lparr>storedMessages :=
        map eventOf (filter (commitBelongsToQueue q) (e # history g))\<rparr>"
    and g': "g' = snd (push (g\<lparr>history := e # history g,
        commit_calls := ([CREATE_JOB_SUBJECT_PREFIX @ name q, p], forSimpleGit opts)
          # commit_calls g\<rparr>))"
    by simp_all
  have n: "name q' = name q" by (simp add: q')
  show "healthy q' g'"
    using assms(1,4) by (simp add: g' healthy_def commitBelongsToQueue_name [OF n])
  show "checkIsRepo g'" "commit_fault g' = None"
    using f by (simp_all add: g')
qed

lemma claim_entry_is_pending:
  assumes "commitBelongsToQueue q e" "startsWith (message e) CREATE_JOB_SUBJECT_PREFIX"
  shows "getNextJob (q\<lparr>storedMessages :=
      map eventOf (filter (commitBelongsToQueue q) (e # es))\<rparr>) = StoredCreateJobMessage e"
  using assms by (simp add: getNextJob_cases eventOf_def)

lemma create_on_healthy:
  assumes "healthy q g" "checkIsRepo g" "history g \<noteq> []"
  shows "create (name q) d g = Inr \<lparr>name = name q, gitRepoDir = d,
      storedMessages = map eventOf (filter (commitBelongsToQueue q) (history g))\<rparr>"
proof -
  let ?q0 = "\<lparr>name = name q, gitRepoDir = d, storedMessages = []\<rparr>"
  have n: "name ?q0 = name q" by simp
  have "healthy ?q0 g"
    using assms(1) by (simp add: healthy_def commitBelongsToQueue_name [OF n])
  from load_healthy [OF this assms(2,3)] show ?thesis
    by (simp add: create_def commitBelongsToQueue_name [OF n])
qed

lemma job_listed_after_createJob:
  assumes "healthy q g" and "createJob_as K q p opts g = (Inr c, q', g')"
    and "K g [CREATE_JOB_SUBJECT_PREFIX @ name q, p] (forSimpleGit opts) = (a, e)"
    and "commitBelongsToQueue q e" and "startsWith (message e) CREATE_JOB_SUBJECT_PREFIX"
  shows "c = Commit a"
    and "history g' = e # history g"
    and "commit_calls g' =
      ([CREATE_JOB_SUBJECT_PREFIX @ name q, p], forSimpleGit opts) # commit_calls g"
    and "getNextJob q' = StoredCreateJobMessage e"
    and "\<exists>q''. create (name q) d g' = Inr q'' \<and> getNextJob q'' = StoredCreateJobMessage e"
proof -
  have r: "commitBelongsToQueue q e \<longrightarrow> recognised e"
    using assms(5) by (simp add: recognised_def)
  note f = createJob_as_Inr_healthy [OF assms(1,2,3) r]
  show "c = Commit a" by (rule f(1))
  show h: "history g' = e # history g" by (simp add: f(3))
  show "commit_calls g' =
      ([CREATE_JOB_SUBJECT_PREFIX @ name q, p], forSimpleGit opts) # commit_calls g"
    by (simp add: f(3))
  show "getNextJob q' = StoredCreateJobMessage e"
    unfolding f(2) using assms(4,5) by (rule claim_entry_is_pending)
  have n: "name q' = name q" by (simp add: f(2))
  have ne: "history g' \<noteq> []" by (simp add: h)
  from create_on_healthy [OF f(4,5) ne, of d]
  have "create (name q) d g' = Inr \<lparr>name = name q, gitRepoDir = d,
      storedMessages = map eventOf (filter (commitBelongsToQueue q) (e # history g))\<rparr>"
    by (simp add: n h commitBelongsToQueue_name [OF n])
  moreover have "getNextJob \<lparr>name = name q, gitRepoDir = d,
      storedMessages = map eventOf (filter (commitBelongsToQueue q) (e # history g))\<rparr>
      = StoredCreateJobMessage e"
    using assms(4,5) by (simp add: getNextJob_cases eventOf_def)
  ultimately show "\<exists>q''. create (name q) d g' = Inr q''
      \<and> getNextJob q'' = StoredCreateJobMessage e" by simp
qed

subsection \<open>The example repositories\<close>

lemma healthy_emptyRepository: "healthy queueQ emptyRepository"
  by (simp add: healthy_def queueQ_def emptyRepository_def)

lemma emptyRepository_answers:
  "checkIsRepo emptyRepository" "commit_fault emptyRepository = None"
  by (simp_all add: emptyRepository_def)

lemma queueQ_no_pending: "StoredMessage_isEmpty (getNextJob queueQ)"
  by (simp add: getNextJob_cases queueQ_def)

lemma queueQpending_pending:
  "\<not> StoredMessage_isEmpty (getNextJob queueQpending)"
  "commitHash (getNextJob queueQpending) = js ''a''"
  by (simp_all add: getNextJob_cases queueQpending_def commitHash_def pendingCommit_def)

lemma healthy_pendingRepository: "healthy queueQpending pendingRepository"
  by (simp add: healthy_def queueQpending_def queueQ_def pendingRepository_def
      emptyRepository_def pendingCommit_def commitBelongsToQueue_def endsWith_def
      recognised_def startsWith_def CREATE_JOB_SUBJECT_PREFIX_def js_def suffix_to_prefix)

lemma pendingRepository_answers:
  "checkIsRepo pendingRepository" "commit_fault pendingRepository = None"
  by (simp_all add: pendingRepository_def emptyRepository_def)

lemma gitLike_first_job:
  "gitLike emptyRepository [CREATE_JOB_SUBJECT_PREFIX @ name queueQ, js ''  payload-1 '']
     (forSimpleGit plainOptions) = (replicate 7 0x61, listedJobOnQ)"
  by (simp add: gitLike_def cleanLines_def emptyRepository_def queueQ_def listedJobOnQ_def
      stripTrailingBlanks_def CREATE_JOB_SUBJECT_PREFIX_def js_def Let_def)

lemma listedJobOnQ_of_queueQ:
  "commitBelongsToQueue queueQ listedJobOnQ"
  "startsWith (message listedJobOnQ) CREATE_JOB_SUBJECT_PREFIX"
  "\<not> commitBelongsToQueue queueQblank listedJobOnQ"
  by (simp_all add: commitBelongsToQueue_def endsWith_def startsWith_def listedJobOnQ_def
      queueQ_def queueQblank_def CREATE_JOB_SUBJECT_PREFIX_def js_def suffix_to_prefix)

section \<open>The claims\<close>

subsection \<open>C8: signing directives of the commit options\<close>

text \<open>
  C8, as stated, asks that the options passed to the commit operation never hold more
  than one signing directive. With a signing key present and the suppress flag set,
  \<open>forSimpleGit\<close> issues both \<^verbatim>\<open>--gpg-sign\<close> and \<^verbatim>\<open>--no-gpg-sign\<close>.
\<close>

theorem forSimpleGit_signing_counterexample:
  "map_of (forSimpleGit \<lparr>author = \<lparr>author_isEmpty = True, author_toString = []\<rparr>,
       gpgSig = \<lparr>key_isEmpty = False, key_toString = js ''KEY''\<rparr>, noGpgSig = True\<rparr>)
     (js ''--gpg-sign'') = Some (Some (js ''KEY''))
   \<and> map_of (forSimpleGit \<lparr>author = \<lparr>author_isEmpty = True, author_toString = []\<rparr>,
       gpgSig = \<lparr>key_isEmpty = False, key_toString = js ''KEY''\<rparr>, noGpgSig = True\<rparr>)
     (js ''--no-gpg-sign'') = Some None"
  by (simp add: forSimpleGit_def js_def)

text \<open>
  C8, amended: for every \<open>CommitOptions\<close> value the sign-with-key directive is issued
  exactly when a signing key is present (with that key), and the no-sign directive exactly
  when the suppress flag is set, each decided on its own; so the number of signing
  directives is one for a present key plus one for a set flag: none by default, and two
  when a key is present and the flag is set.
\<close>

theorem forSimpleGit_signing_directives:
  "map_of (forSimpleGit opts) (js ''--gpg-sign'') =
     (if key_isEmpty (gpgSig opts) then None else Some (Some (key_toString (gpgSig opts))))
   \<and> map_of (forSimpleGit opts) (js ''--no-gpg-sign'') =
     (if noGpgSig opts then Some None else None)
   \<and> length (filter (\<lambda>kv. fst kv = js ''--gpg-sign'' \<or> fst kv = js ''--no-gpg-sign'')
        (forSimpleGit opts)) =
     (if key_isEmpty (gpgSig opts) then 0 else 1) + (if noGpgSig opts then 1 else 0)"
  by (simp add: forSimpleGit_def js_def)

subsection \<open>C3: the pending job\<close>

text \<open>
  C3: \<open>getNextJob\<close> answers the first (most recent) stored message when that is a
  job-created message and the null message otherwise; a job-completed message at the
  head gives what an empty sequence gives; and on a healthy repository, after a
  \<open>createJob\<close> and a \<open>markJobAsDone\<close> that both succeeded, \<open>getNextJob\<close> finds
  nothing and a further \<open>createJob\<close> succeeds.
\<close>

theorem getNextJob_pending_job:
  "getNextJob q = (case storedMessages q of
       StoredCreateJobMessage c # ms \<Rightarrow> StoredCreateJobMessage c | _ \<Rightarrow> nullMessage)
   \<and> (\<forall>c ms. storedMessages q = StoredMarkJobAsDoneMessage c # ms \<longrightarrow>
         getNextJob q = getNextJob (q\<lparr>storedMessages := []\<rparr>))
   \<and> (\<forall>c1 q1 g1 c2 q2 g2.
         healthy q g \<and> createJob q p1 o1 g = (Inr c1, q1, g1)
           \<and> markJobAsDone q1 p2 o2 g1 = (Inr c2, q2, g2) \<longrightarrow>
         StoredMessage_isEmpty (getNextJob q2)
           \<and> (\<exists>c3 q3 g3. createJob q2 p3 o3 g2 = (Inr c3, q3, g3)))"
proof -
  have a: "getNextJob q = (case storedMessages q of
       StoredCreateJobMessage c # ms \<Rightarrow> StoredCreateJobMessage c | _ \<Rightarrow> nullMessage)"
    by (rule getNextJob_cases)
  have b: "\<forall>c ms. storedMessages q = StoredMarkJobAsDoneMessage c # ms \<longrightarrow>
         getNextJob q = getNextJob (q\<lparr>storedMessages := []\<rparr>)"
    by (simp add: getNextJob_cases)
  have c: "\<forall>c1 q1 g1 c2 q2 g2.
         healthy q g \<and> createJob q p1 o1 g = (Inr c1, q1, g1)
           \<and> markJobAsDone q1 p2 o2 g1 = (Inr c2, q2, g2) \<longrightarrow>
         StoredMessage_isEmpty (getNextJob q2)
           \<and> (\<exists>c3 q3 g3. createJob q2 p3 o3 g2 = (Inr c3, q3, g3))"
  proof (intro allI impI, elim conjE)
    fix c1 q1 g1 c2 q2 g2
    assume h: "healthy q g" and r1: "createJob q p1 o1 g = (Inr c1, q1, g1)"
      and r2: "markJobAsDone q1 p2 o2 g1 = (Inr c2, q2, g2)"
    from slot_free_after_done [OF h r1 r2]
    show "StoredMessage_isEmpty (getNextJob q2)
           \<and> (\<exists>c3 q3 g3. createJob q2 p3 o3 g2 = (Inr c3, q3, g3))"
      by (intro conjI)
  qed
  from a b c show ?thesis by (intro conjI)
qed

theorem getNextJob_pending_job_witness:
  "healthy queueQ emptyRepository
   \<and> (\<exists>c1 q1 g1 c2 q2 g2 d ms.
        createJob queueQ (js ''payload-1'') plainOptions emptyRepository = (Inr c1, q1, g1)
      \<and> markJobAsDone q1 (js ''payload-1'') plainOptions g1 = (Inr c2, q2, g2)
      \<and> storedMessages q2 = StoredMarkJobAsDoneMessage d # ms
      \<and> getNextJob q2 = getNextJob (q2\<lparr>storedMessages := []\<rparr>)
      \<and> StoredMessage_isEmpty (getNextJob q2)
      \<and> (\<exists>c3 q3 g3. createJob q2 (js ''payload-2'') plainOptions g2 = (Inr c3, q3, g3)))"
proof -
  have h: "healthy queueQ emptyRepository"
    by (simp add: healthy_def queueQ_def emptyRepository_def)
  have repo: "checkIsRepo emptyRepository" "commit_fault emptyRepository = None"
    by (simp_all add: emptyRepository_def)
  have e0: "StoredMessage_isEmpty (getNextJob queueQ)"
    by (simp add: getNextJob_cases queueQ_def)
  from createJob_healthy [OF h repo e0, of "js ''payload-1''" plainOptions]
  obtain c1 q1 g1
    where r1: "createJob queueQ (js ''payload-1'') plainOptions emptyRepository = (Inr c1, q1, g1)"
    by blast
  note one = createJob_Inr_healthy [OF h r1]
  have e1: "\<not> StoredMessage_isEmpty (getNextJob q1)"
    by (simp add: one(2) getNextJob_cases)
  from markJobAsDone_healthy [OF one(4,5,6) e1, of "js ''payload-1''" plainOptions]
  obtain c2 q2 g2
    where r2: "markJobAsDone q1 (js ''payload-1'') plainOptions g1 = (Inr c2, q2, g2)"
    by blast
  note two = markJobAsDone_Inr_healthy [OF one(4) r2]
  from two(2) obtain d ms where s2: "storedMessages q2 = StoredMarkJobAsDoneMessage d # ms"
    by simp
  note inst = getNextJob_pending_job [of q2 emptyRepository]
  note inst0 = getNextJob_pending_job [of queueQ emptyRepository "js ''payload-1''" plainOptions
      "js ''payload-1''" plainOptions "js ''payload-2''" plainOptions]
  from inst s2 have a: "getNextJob q2 = getNextJob (q2\<lparr>storedMessages := []\<rparr>)"
    by blast
  from inst0 h r1 r2 have b: "StoredMessage_isEmpty (getNextJob q2)
      \<and> (\<exists>c3 q3 g3. createJob q2 (js ''payload-2'') plainOptions g2 = (Inr c3, q3, g3))"
    by blast
  from h r1 r2 s2 a b show ?thesis by blast
qed

subsection \<open>C4: a pending job blocks \<open>createJob\<close>\<close>

text \<open>
  C4, as stated, asks that a second \<open>createJob\<close> on the same queue always fails while
  no \<open>markJobAsDone\<close> has come between. For the queue whose name is \<open>Q\<close> followed by a
  blank, the collaborator lists the first job under a subject without the blank, the
  queue's filter does not let it through, and the second \<open>createJob\<close> succeeds as the
  first did.
\<close>

theorem second_createJob_not_refused:
  "createJob_as gitLike queueQblank (js ''  payload-1 '') plainOptions emptyRepository
     = (Inr (Commit (replicate 7 0x61)), queueQblank,
        emptyRepository\<lparr>history := [listedJobOnQ],
          commit_calls := [([js ''CLAIM LOCK: JOB: Q '', js ''  payload-1 ''],
            forSimpleGit plainOptions)]\<rparr>)
   \<and> fst (createJob_as gitLike queueQblank (js ''payload-2'') plainOptions
        (emptyRepository\<lparr>history := [listedJobOnQ],
          commit_calls := [([js ''CLAIM LOCK: JOB: Q '', js ''  payload-1 ''],
            forSimpleGit plainOptions)]\<rparr>))
     = Inr (Commit (replicate 7 0x62))"
  by (simp add: unfold_queue createJob_as_def commitMessage_as_def commitAndPush_as_def
      commit_as_def git_commit_as_def gitLike_def cleanLines_def stripTrailingBlanks_def
      queueQblank_def listedJobOnQ_def emptyRepository_def)

text \<open>
  C4, amended: whenever the pending job of a queue is not empty, \<open>createJob\<close> fails, for
  every payload and whatever the collaborator does, with the error whose message names
  the hash of the blocking commit, and changes nothing. A second \<open>createJob\<close> right
  after one that succeeded on a healthy repository fails in this way, for every payload,
  whenever the log lists the first job's commit under a subject that still starts with
  the claim prefix and ends with the queue's name; the hash named is the one of the log's
  entry, whatever the first call answered.
\<close>

theorem createJob_refuses_while_pending:
  "(\<not> StoredMessage_isEmpty (getNextJob q) \<longrightarrow>
      createJob q p opts g = (Inl (JobAlreadyPending (commitHash (getNextJob q))), q, g)
      \<and> createJob_as K q p opts g
          = (Inl (JobAlreadyPending (commitHash (getNextJob q))), q, g)
      \<and> error_message (JobAlreadyPending (commitHash (getNextJob q))) =
          js ''Can't create a new job. There is already a pending job in commit: ''
            @ commitHash (getNextJob q))
   \<and> (\<forall>c q1 g1 a e. healthy q g \<and> createJob_as K q p opts g = (Inr c, q1, g1)
         \<and> K g [CREATE_JOB_SUBJECT_PREFIX @ name q, p] (forSimpleGit opts) = (a, e)
         \<and> commitBelongsToQueue q e
         \<and> startsWith (message e) CREATE_JOB_SUBJECT_PREFIX \<longrightarrow>
         createJob_as K q1 p2 opts2 g1 = (Inl (JobAlreadyPending (hash e)), q1, g1))"
proof -
  have one: "\<not> StoredMessage_isEmpty (getNextJob q) \<longrightarrow>
      createJob q p opts g = (Inl (JobAlreadyPending (commitHash (getNextJob q))), q, g)
      \<and> createJob_as K q p opts g
          = (Inl (JobAlreadyPending (commitHash (getNextJob q))), q, g)
      \<and> error_message (JobAlreadyPending (commitHash (getNextJob q))) =
          js ''Can't create a new job. There is already a pending job in commit: ''
            @ commitHash (getNextJob q)"
    by (simp add: createJob_guard_fails createJob_as_guard_fails)
  have two: "\<forall>c q1 g1 a e. healthy q g \<and> createJob_as K q p opts g = (Inr c, q1, g1)
         \<and> K g [CREATE_JOB_SUBJECT_PREFIX @ name q, p] (forSimpleGit opts) = (a, e)
         \<and> commitBelongsToQueue q e
         \<and> startsWith (message e) CREATE_JOB_SUBJECT_PREFIX \<longrightarrow>
         createJob_as K q1 p2 opts2 g1 = (Inl (JobAlreadyPending (hash e)), q1, g1)"
  proof (intro allI impI, elim conjE)
    fix c q1 g1 a e
    assume h: "healthy q g" and r: "createJob_as K q p opts g = (Inr c, q1, g1)"
      and k: "K g [CREATE_JOB_SUBJECT_PREFIX @ name q, p] (forSimpleGit opts) = (a, e)"
      and b: "commitBelongsToQueue q e"
      and s: "startsWith (message e) CREATE_JOB_SUBJECT_PREFIX"
    from job_listed_after_createJob(4) [OF h r k b s]
    have j: "getNextJob q1 = StoredCreateJobMessage e" .
    then have n: "\<not> StoredMessage_isEmpty (getNextJob q1)" by simp
    from createJob_as_guard_fails [OF n, of K p2 opts2 g1]
    show "createJob_as K q1 p2 opts2 g1 = (Inl (JobAlreadyPending (hash e)), q1, g1)"
      by (simp add: j commitHash_def)
  qed
  from one two show ?thesis by (rule conjI)
qed

theorem createJob_refuses_while_pending_witness:
  "\<not> StoredMessage_isEmpty (getNextJob queueQpending)
   \<and> createJob queueQpending (js ''payload-2'') plainOptions pendingRepository
     = (Inl (JobAlreadyPending (js ''a'')), queueQpending, pendingRepository)
   \<and> healthy queueQ emptyRepository
   \<and> gitLike emptyRepository [CREATE_JOB_SUBJECT_PREFIX @ name queueQ, js ''  payload-1 '']
        (forSimpleGit plainOptions) = (replicate 7 0x61, listedJobOnQ)
   \<and> commitBelongsToQueue queueQ listedJobOnQ
   \<and> startsWith (message listedJobOnQ) CREATE_JOB_SUBJECT_PREFIX
   \<and> (\<exists>q1 g1. createJob_as gitLike queueQ (js ''  payload-1 '') plainOptions emptyRepository
         = (Inr (Commit (replicate 7 0x61)), q1, g1)
       \<and> createJob_as gitLike q1 (js ''payload-2'') plainOptions g1
         = (Inl (JobAlreadyPending (replicate 40 0x61)), q1, g1))"
proof -
  note inst1 = createJob_refuses_while_pending [of queueQpending "js ''payload-2''"
      plainOptions pendingRepository]
  from inst1 queueQpending_pending
  have a: "createJob queueQpending (js ''payload-2'') plainOptions pendingRepository
     = (Inl (JobAlreadyPending (js ''a'')), queueQpending, pendingRepository)"
    by simp
  have rec: "commitBelongsToQueue queueQ listedJobOnQ \<longrightarrow> recognised listedJobOnQ"
    using listedJobOnQ_of_queueQ(2) by (simp add: recognised_def)
  from createJob_as_healthy [of queueQ emptyRepository gitLike "js ''  payload-1 ''"
      plainOptions "replicate 7 0x61" listedJobOnQ, OF healthy_emptyRepository
      emptyRepository_answers queueQ_no_pending gitLike_first_job rec]
  obtain q1 g1 where r: "createJob_as gitLike queueQ (js ''  payload-1 '') plainOptions
      emptyRepository = (Inr (Commit (replicate 7 0x61)), q1, g1)"
    by blast
  note inst2 = createJob_refuses_while_pending [of queueQ "js ''  payload-1 ''" plainOptions
      emptyRepository gitLike "js ''payload-2''" plainOptions]
  from inst2 healthy_emptyRepository r gitLike_first_job listedJobOnQ_of_queueQ(1,2)
  have b: "createJob_as gitLike q1 (js ''payload-2'') plainOptions g1
         = (Inl (JobAlreadyPending (hash listedJobOnQ)), q1, g1)"
    by blast
  have hh: "hash listedJobOnQ = replicate 40 0x61" by (simp add: listedJobOnQ_def)
  from queueQpending_pending(1) a healthy_emptyRepository gitLike_first_job
    listedJobOnQ_of_queueQ(1,2) r b
  show ?thesis unfolding hh by blast
qed

subsection \<open>C5: \<open>markJobAsDone\<close> needs a pending job\<close>

text \<open>
  C5: whenever the pending job of a queue is empty, \<open>markJobAsDone\<close> fails with the
  no-pending-job error, for every payload; a \<open>markJobAsDone\<close> that succeeds had a
  pending job and has added to the branch a commit whose subject is the release prefix
  followed by the queue's name and whose body is the payload, which on a healthy
  repository is the job-completed message at the head of the reloaded queue.
\<close>

theorem markJobAsDone_needs_pending_job:
  "(StoredMessage_isEmpty (getNextJob q) \<longrightarrow>
      markJobAsDone q p opts g = (Inl NoPendingJob, q, g))
   \<and> (\<forall>c q' g'. markJobAsDone q p opts g = (Inr c, q', g') \<longrightarrow>
         \<not> StoredMessage_isEmpty (getNextJob q)
         \<and> c = Commit (fresh_hash g (length (history g)))
         \<and> history g' = newCommit g (MARK_JOB_AS_DONE_SUBJECT_PREFIX @ name q) p # history g
         \<and> commit_calls g' =
             ([MARK_JOB_AS_DONE_SUBJECT_PREFIX @ name q, p], forSimpleGit opts) # commit_calls g)
   \<and> (\<forall>c q' g'. healthy q g \<and> markJobAsDone q p opts g = (Inr c, q', g') \<longrightarrow>
         getLatestMessage q' =
           StoredMarkJobAsDoneMessage (newCommit g (MARK_JOB_AS_DONE_SUBJECT_PREFIX @ name q) p))"
proof -
  have one: "StoredMessage_isEmpty (getNextJob q) \<longrightarrow>
      markJobAsDone q p opts g = (Inl NoPendingJob, q, g)"
    by (simp add: markJobAsDone_guard_fails)
  have two: "\<forall>c q' g'. markJobAsDone q p opts g = (Inr c, q', g') \<longrightarrow>
         \<not> StoredMessage_isEmpty (getNextJob q)
         \<and> c = Commit (fresh_hash g (length (history g)))
         \<and> history g' = newCommit g (MARK_JOB_AS_DONE_SUBJECT_PREFIX @ name q) p # history g
         \<and> commit_calls g' =
             ([MARK_JOB_AS_DONE_SUBJECT_PREFIX @ name q, p], forSimpleGit opts) # commit_calls g"
  proof (intro allI impI)
    fix c q' g'
    assume r: "markJobAsDone q p opts g = (Inr c, q', g')"
    from markJobAsDone_Inr_facts [OF r] markJobAsDone_Inr_git [OF r]
    show "\<not> StoredMessage_isEmpty (getNextJob q)
         \<and> c = Commit (fresh_hash g (length (history g)))
         \<and> history g' = newCommit g (MARK_JOB_AS_DONE_SUBJECT_PREFIX @ name q) p # history g
         \<and> commit_calls g' =
             ([MARK_JOB_AS_DONE_SUBJECT_PREFIX @ name q, p], forSimpleGit opts) # commit_calls g"
      by simp
  qed
  have three: "\<forall>c q' g'. healthy q g \<and> markJobAsDone q p opts g = (Inr c, q', g') \<longrightarrow>
         getLatestMessage q' =
           StoredMarkJobAsDoneMessage (newCommit g (MARK_JOB_AS_DONE_SUBJECT_PREFIX @ name q) p)"
  proof (intro allI impI, elim conjE)
    fix c q' g'
    assume h: "healthy q g" and r: "markJobAsDone q p opts g = (Inr c, q', g')"
    note f = markJobAsDone_Inr_healthy [OF h r]
    show "getLatestMessage q' =
           StoredMarkJobAsDoneMessage (newCommit g (MARK_JOB_AS_DONE_SUBJECT_PREFIX @ name q) p)"
      by (simp add: f(2) getLatestMessage_def Queue_isEmpty_def)
  qed
  from one two three show ?thesis by (intro conjI)
qed

theorem markJobAsDone_needs_pending_job_witness:
  "StoredMessage_isEmpty (getNextJob queueQ)
   \<and> markJobAsDone queueQ (js ''payload-1'') plainOptions emptyRepository
       = (Inl NoPendingJob, queueQ, emptyRepository)
   \<and> healthy queueQpending pendingRepository
   \<and> (\<exists>q' g'. markJobAsDone queueQpending (js ''done'') plainOptions pendingRepository
         = (Inr (Commit (js ''aa'')), q', g')
       \<and> \<not> StoredMessage_isEmpty (getNextJob queueQpending)
       \<and> history g' = \<lparr>hash = js ''aa'', date = [],
             message = js ''RELEASE LOCK: JOB DONE: Q'', refs = [], body = js ''done'',
             author_name = [], author_email = []\<rparr> # [pendingCommit]
       \<and> getLatestMessage q' = StoredMarkJobAsDoneMessage \<lparr>hash = js ''aa'', date = [],
             message = js ''RELEASE LOCK: JOB DONE: Q'', refs = [], body = js ''done'',
             author_name = [], author_email = []\<rparr>)"
proof -
  note inst1 = markJobAsDone_needs_pending_job [of queueQ "js ''payload-1''" plainOptions
      emptyRepository]
  from inst1 queueQ_no_pending
  have a: "markJobAsDone queueQ (js ''payload-1'') plainOptions emptyRepository
       = (Inl NoPendingJob, queueQ, emptyRepository)" by blast
  have nc: "newCommit pendingRepository (MARK_JOB_AS_DONE_SUBJECT_PREFIX @ name queueQpending)
      (js ''done'') = \<lparr>hash = js ''aa'', date = [],
             message = js ''RELEASE LOCK: JOB DONE: Q'', refs = [], body = js ''done'',
             author_name = [], author_email = []\<rparr>"
    by (simp add: newCommit_def pendingRepository_def emptyRepository_def queueQpending_def
        queueQ_def MARK_JOB_AS_DONE_SUBJECT_PREFIX_def js_def)
  from markJobAsDone_healthy [OF healthy_pendingRepository pendingRepository_answers
      queueQpending_pending(1), of "js ''done''" plainOptions]
  obtain q' g' where r: "markJobAsDone queueQpending (js ''done'') plainOptions
      pendingRepository = (Inr (Commit (js ''aa'')), q', g')"
    by (simp add: pendingRepository_def emptyRepository_def js_def)
  note inst2 = markJobAsDone_needs_pending_job [of queueQpending "js ''done''" plainOptions
      pendingRepository]
  from inst2 r have b: "\<not> StoredMessage_isEmpty (getNextJob queueQpending)
       \<and> history g' = newCommit pendingRepository
            (MARK_JOB_AS_DONE_SUBJECT_PREFIX @ name queueQpending) (js ''done'')
          # history pendingRepository"
    by blast
  from inst2 healthy_pendingRepository r
  have c: "getLatestMessage q' = StoredMarkJobAsDoneMessage (newCommit pendingRepository
            (MARK_JOB_AS_DONE_SUBJECT_PREFIX @ name queueQpending) (js ''done''))"
    by blast
  have hp: "history pendingRepository = [pendingCommit]"
    by (simp add: pendingRepository_def emptyRepository_def)
  from queueQ_no_pending a healthy_pendingRepository r b c show ?thesis
    unfolding nc hp by blast
qed

subsection \<open>C6: the payload comes back\<close>

text \<open>
  C6, as stated, asks that \<open>getNextJob\<close> after a successful \<open>createJob\<close> finds the job,
  under the commit identifier that \<open>createJob\<close> answered and with the payload trimmed.
  \<open>createJob\<close> answers what the commit call answered, the first seven characters of
  the hash, and \<open>getNextJob\<close> the hash of the log's entry, all forty. A payload of two
  lines whose first line ends with a blank comes back without that blank, which is not at
  an end of the payload. And for the queue whose name is \<open>Q\<close> followed by a blank,
  \<open>createJob\<close> succeeds and \<open>getNextJob\<close> finds nothing, on the reloaded queue and
  on a queue newly created for that name.
\<close>

theorem returned_id_is_not_listed_hash:
  "createJob_as gitLike queueQ (js ''  payload-1 '') plainOptions emptyRepository
     = (Inr (Commit (replicate 7 0x61)),
        queueQ\<lparr>storedMessages := [StoredCreateJobMessage listedJobOnQ]\<rparr>,
        emptyRepository\<lparr>history := [listedJobOnQ],
          commit_calls := [([js ''CLAIM LOCK: JOB: Q'', js ''  payload-1 ''],
            forSimpleGit plainOptions)]\<rparr>)
   \<and> getNextJob (queueQ\<lparr>storedMessages := [StoredCreateJobMessage listedJobOnQ]\<rparr>)
     = StoredCreateJobMessage listedJobOnQ
   \<and> commitHash (StoredCreateJobMessage listedJobOnQ) = replicate 40 0x61
   \<and> replicate 40 (0x61 :: 16 word) \<noteq> replicate 7 0x61
   \<and> createJob_as gitLike queueQ (js ''a '' @ [0xA] @ js ''b'') plainOptions emptyRepository
     = (Inr (Commit (replicate 7 0x61)),
        queueQ\<lparr>storedMessages := [StoredCreateJobMessage listedTwoLines]\<rparr>,
        emptyRepository\<lparr>history := [listedTwoLines],
          commit_calls := [([js ''CLAIM LOCK: JOB: Q'', js ''a '' @ [0xA] @ js ''b''],
            forSimpleGit plainOptions)]\<rparr>)
   \<and> payload (getNextJob (queueQ\<lparr>storedMessages := [StoredCreateJobMessage listedTwoLines]\<rparr>))
     = js ''a'' @ [0xA] @ js ''b''
   \<and> trim (js ''a '' @ [0xA] @ js ''b'') = js ''a '' @ [0xA] @ js ''b''
   \<and> js ''a'' @ [0xA] @ js ''b'' \<noteq> js ''a '' @ [0xA] @ js ''b''
   \<and> createJob_as gitLike queueQblank (js ''  payload-1 '') plainOptions emptyRepository
     = (Inr (Commit (replicate 7 0x61)), queueQblank,
        emptyRepository\<lparr>history := [listedJobOnQ],
          commit_calls := [([js ''CLAIM LOCK: JOB: Q '', js ''  payload-1 ''],
            forSimpleGit plainOptions)]\<rparr>)
   \<and> StoredMessage_isEmpty (getNextJob queueQblank)
   \<and> create (js ''Q '') (js ''/repo'')
        (emptyRepository\<lparr>history := [listedJobOnQ],
          commit_calls := [([js ''CLAIM LOCK: JOB: Q '', js ''  payload-1 ''],
            forSimpleGit plainOptions)]\<rparr>) = Inr queueQblank"
  by (simp add: unfold_queue createJob_as_def commitMessage_as_def commitAndPush_as_def
      commit_as_def git_commit_as_def gitLike_def cleanLines_def stripTrailingBlanks_def
      queueQ_def queueQblank_def listedJobOnQ_def listedTwoLines_def emptyRepository_def
      commitHash_def payload_def trim_def isWhiteSpace_def replicate_eq_replicate)

text \<open>
  C6, amended: when \<open>createJob\<close> succeeds on a healthy repository and the log lists the
  new commit under a subject that still starts with the claim prefix and ends with the
  queue's name, then \<open>createJob\<close> has answered what the commit call answered, the commit
  call was given the payload unchanged as the body, the new entry is the first of the
  branch, and \<open>getNextJob\<close>, on the reloaded queue and on a queue newly created for the
  same name, finds a job whose hash is the one of the log's entry and whose payload is the
  body of that entry trimmed; so the payload comes back trimmed and otherwise unchanged
  whenever the body the log lists differs from it only in white space at the two ends.
  Trimming only takes white space off the two ends, up to the first and the last
  character that is not white space; and \<open>createJob\<close> does succeed when the repository
  answers, no job is pending and the log lists the new commit under such a subject.
\<close>

theorem job_read_back_as_listed:
  "(\<forall>c q' g' a e. healthy q g \<and> createJob_as K q p opts g = (Inr c, q', g')
       \<and> K g [CREATE_JOB_SUBJECT_PREFIX @ name q, p] (forSimpleGit opts) = (a, e)
       \<and> commitBelongsToQueue q e
       \<and> startsWith (message e) CREATE_JOB_SUBJECT_PREFIX \<longrightarrow>
       c = Commit a
       \<and> history g' = e # history g
       \<and> commit_calls g' =
           ([CREATE_JOB_SUBJECT_PREFIX @ name q, p], forSimpleGit opts) # commit_calls g
       \<and> \<not> StoredMessage_isEmpty (getNextJob q')
       \<and> commitHash (getNextJob q') = hash e
       \<and> payload (getNextJob q') = trim (body e)
       \<and> (\<exists>q''. create (name q) d g' = Inr q''
            \<and> \<not> StoredMessage_isEmpty (getNextJob q'')
            \<and> commitHash (getNextJob q'') = hash e
            \<and> payload (getNextJob q'') = trim (body e))
       \<and> (trim (body e) = trim p \<longrightarrow> payload (getNextJob q') = trim p))
   \<and> (\<exists>l r. p = l @ trim p @ r \<and> list_all isWhiteSpace l \<and> list_all isWhiteSpace r)
   \<and> (trim p \<noteq> [] \<longrightarrow> \<not> isWhiteSpace (hd (trim p)) \<and> \<not> isWhiteSpace (last (trim p)))
   \<and> (\<forall>a e. healthy q g \<and> checkIsRepo g \<and> commit_fault g = None
        \<and> StoredMessage_isEmpty (getNextJob q)
        \<and> K g [CREATE_JOB_SUBJECT_PREFIX @ name q, p] (forSimpleGit opts) = (a, e)
        \<and> commitBelongsToQueue q e
        \<and> startsWith (message e) CREATE_JOB_SUBJECT_PREFIX \<longrightarrow>
       (\<exists>q' g'. createJob_as K q p opts g = (Inr (Commit a), q', g')))"
proof -
  have one: "\<forall>c q' g' a e. healthy q g \<and> createJob_as K q p opts g = (Inr c, q', g')
       \<and> K g [CREATE_JOB_SUBJECT_PREFIX @ name q, p] (forSimpleGit opts) = (a, e)
       \<and> commitBelongsToQueue q e
       \<and> startsWith (message e) CREATE_JOB_SUBJECT_PREFIX \<longrightarrow>
       c = Commit a
       \<and> history g' = e # history g
       \<and> commit_calls g' =
           ([CREATE_JOB_SUBJECT_PREFIX @ name q, p], forSimpleGit opts) # commit_calls g
       \<and> \<not> StoredMessage_isEmpty (getNextJob q')
       \<and> commitHash (getNextJob q') = hash e
       \<and> payload (getNextJob q') = trim (body e)
       \<and> (\<exists>q''. create (name q) d g' = Inr q''
            \<and> \<not> StoredMessage_isEmpty (getNextJob q'')
            \<and> commitHash (getNextJob q'') = hash e
            \<and> payload (getNextJob q'') = trim (body e))
       \<and> (trim (body e) = trim p \<longrightarrow> payload (getNextJob q') = trim p)"
  proof (intro allI impI, elim conjE)
    fix c q' g' a e
    assume h: "healthy q g" and r: "createJob_as K q p opts g = (Inr c, q', g')"
      and k: "K g [CREATE_JOB_SUBJECT_PREFIX @ name q, p] (forSimpleGit opts) = (a, e)"
      and b: "commitBelongsToQueue q e"
      and s: "startsWith (message e) CREATE_JOB_SUBJECT_PREFIX"
    note f = job_listed_after_createJob [OF h r k b s]
    from f(5) [of d] obtain q'' where fresh: "create (name q) d g' = Inr q''"
      and j'': "getNextJob q'' = StoredCreateJobMessage e" by blast
    have x: "\<exists>q''. create (name q) d g' = Inr q''
            \<and> \<not> StoredMessage_isEmpty (getNextJob q'')
            \<and> commitHash (getNextJob q'') = hash e
            \<and> payload (getNextJob q'') = trim (body e)"
      using fresh by (simp add: j'' commitHash_def payload_def)
    from f(1,2,3) x
    show "c = Commit a
       \<and> history g' = e # history g
       \<and> commit_calls g' =
           ([CREATE_JOB_SUBJECT_PREFIX @ name q, p], forSimpleGit opts) # commit_calls g
       \<and> \<not> StoredMessage_isEmpty (getNextJob q')
       \<and> commitHash (getNextJob q') = hash e
       \<and> payload (getNextJob q') = trim (body e)
       \<and> (\<exists>q''. create (name q) d g' = Inr q''
            \<and> \<not> StoredMessage_isEmpty (getNextJob q'')
            \<and> commitHash (getNextJob q'') = hash e
            \<and> payload (getNextJob q'') = trim (body e))
       \<and> (trim (body e) = trim p \<longrightarrow> payload (getNextJob q') = trim p)"
      by (simp add: f(4) commitHash_def payload_def)
  qed
  have two: "\<exists>l r. p = l @ trim p @ r \<and> list_all isWhiteSpace l \<and> list_all isWhiteSpace r"
    by (rule trim_decomposition)
  have three: "trim p \<noteq> [] \<longrightarrow>
      \<not> isWhiteSpace (hd (trim p)) \<and> \<not> isWhiteSpace (last (trim p))"
    using trim_ends by (rule impI)
  have four: "\<forall>a e. healthy q g \<and> checkIsRepo g \<and> commit_fault g = None
        \<and> StoredMessage_isEmpty (getNextJob q)
        \<and> K g [CREATE_JOB_SUBJECT_PREFIX @ name q, p] (forSimpleGit opts) = (a, e)
        \<and> commitBelongsToQueue q e
        \<and> startsWith (message e) CREATE_JOB_SUBJECT_PREFIX \<longrightarrow>
       (\<exists>q' g'. createJob_as K q p opts g = (Inr (Commit a), q', g'))"
  proof (intro allI impI, elim conjE)
    fix a e
    assume h: "healthy q g" "checkIsRepo g" "commit_fault g = None"
      "StoredMessage_isEmpty (getNextJob q)"
      and k: "K g [CREATE_JOB_SUBJECT_PREFIX @ name q, p] (forSimpleGit opts) = (a, e)"
      and s: "startsWith (message e) CREATE_JOB_SUBJECT_PREFIX"
    have rec: "commitBelongsToQueue q e \<longrightarrow> recognised e"
      using s by (simp add: recognised_def)
    from createJob_as_healthy [of q g K p opts a e, OF h k rec]
    show "\<exists>q' g'. createJob_as K q p opts g = (Inr (Commit a), q', g')" by blast
  qed
  from one two three four show ?thesis by (intro conjI)
qed

theorem job_read_back_as_listed_witness:
  "healthy queueQ emptyRepository \<and> checkIsRepo emptyRepository
   \<and> commit_fault emptyRepository = None \<and> StoredMessage_isEmpty (getNextJob queueQ)
   \<and> gitLike emptyRepository [CREATE_JOB_SUBJECT_PREFIX @ name queueQ, js ''  payload-1 '']
        (forSimpleGit plainOptions) = (replicate 7 0x61, listedJobOnQ)
   \<and> commitBelongsToQueue queueQ listedJobOnQ
   \<and> startsWith (message listedJobOnQ) CREATE_JOB_SUBJECT_PREFIX
   \<and> trim (body listedJobOnQ) = trim (js ''  payload-1 '')
   \<and> trim (js ''  payload-1 '') = js ''payload-1''
   \<and> (\<exists>q' g' q''. createJob_as gitLike queueQ (js ''  payload-1 '') plainOptions
         emptyRepository = (Inr (Commit (replicate 7 0x61)), q', g')
       \<and> history g' = [listedJobOnQ]
       \<and> \<not> StoredMessage_isEmpty (getNextJob q')
       \<and> commitHash (getNextJob q') = replicate 40 0x61
       \<and> payload (getNextJob q') = js ''payload-1''
       \<and> create (js ''Q'') (js ''/other'') g' = Inr q''
       \<and> \<not> StoredMessage_isEmpty (getNextJob q'')
       \<and> commitHash (getNextJob q'') = replicate 40 0x61
       \<and> payload (getNextJob q'') = js ''payload-1'')
   \<and> \<not> isWhiteSpace (hd (trim (js ''  payload-1 '')))
   \<and> \<not> isWhiteSpace (last (trim (js ''  payload-1 '')))"
proof -
  let ?p = "js ''  payload-1 ''"
  have t: "trim ?p = js ''payload-1''"
    by (simp add: trim_def isWhiteSpace_def js_def)
  have tb: "trim (body listedJobOnQ) = trim ?p"
    by (simp add: listedJobOnQ_def trim_def isWhiteSpace_def js_def)
  have hh: "hash listedJobOnQ = replicate 40 0x61" "history emptyRepository = []"
    "name queueQ = js ''Q''"
    by (simp_all add: listedJobOnQ_def emptyRepository_def queueQ_def)
  note inst = job_read_back_as_listed [of queueQ emptyRepository gitLike ?p plainOptions
      "js ''/other''"]
  from inst healthy_emptyRepository emptyRepository_answers queueQ_no_pending
    gitLike_first_job listedJobOnQ_of_queueQ(1,2)
  obtain q' g' where r: "createJob_as gitLike queueQ ?p plainOptions emptyRepository
      = (Inr (Commit (replicate 7 0x61)), q', g')" by blast
  from inst healthy_emptyRepository r gitLike_first_job listedJobOnQ_of_queueQ(1,2)
  have f: "history g' = listedJobOnQ # history emptyRepository
       \<and> \<not> StoredMessage_isEmpty (getNextJob q')
       \<and> commitHash (getNextJob q') = hash listedJobOnQ
       \<and> payload (getNextJob q') = trim (body listedJobOnQ)
       \<and> (\<exists>q''. create (name queueQ) (js ''/other'') g' = Inr q''
            \<and> \<not> StoredMessage_isEmpty (getNextJob q'')
            \<and> commitHash (getNextJob q'') = hash listedJobOnQ
            \<and> payload (getNextJob q'') = trim (body listedJobOnQ))"
    by blast
  have ne: "trim ?p \<noteq> []" unfolding t by (simp add: js_def)
  from inst ne have e: "\<not> isWhiteSpace (hd (trim ?p)) \<and> \<not> isWhiteSpace (last (trim ?p))"
    by blast
  from healthy_emptyRepository emptyRepository_answers queueQ_no_pending gitLike_first_job
    listedJobOnQ_of_queueQ(1,2) tb t r f e
  show ?thesis unfolding hh by (simp add: tb t)
qed

subsection \<open>C10: a failed guard changes nothing\<close>

text \<open>
  C10: when \<open>createJob\<close> fails with the job-already-pending error, or
  \<open>markJobAsDone\<close> with the no-pending-job error, it was the guard that failed, and
  the queue and the repository (branch, remote and the record of commit calls) are
  exactly what they were before the call.
\<close>

theorem guard_failure_is_atomic:
  "(createJob q p opts g = (Inl (JobAlreadyPending h), q', g') \<longrightarrow>
      q' = q \<and> g' = g \<and> \<not> StoredMessage_isEmpty (getNextJob q))
   \<and> (markJobAsDone q p opts g = (Inl NoPendingJob, q', g') \<longrightarrow>
      q' = q \<and> g' = g \<and> StoredMessage_isEmpty (getNextJob q))"
proof -
  have one: "createJob q p opts g = (Inl (JobAlreadyPending h), q', g') \<longrightarrow>
      q' = q \<and> g' = g \<and> \<not> StoredMessage_isEmpty (getNextJob q)"
  proof (rule impI)
    assume a: "createJob q p opts g = (Inl (JobAlreadyPending h), q', g')"
    from createJob_Inl_pending [OF a] have n: "\<not> StoredMessage_isEmpty (getNextJob q)" .
    from a createJob_guard_fails [OF n, of p opts g]
    show "q' = q \<and> g' = g \<and> \<not> StoredMessage_isEmpty (getNextJob q)" using n by simp
  qed
  have two: "markJobAsDone q p opts g = (Inl NoPendingJob, q', g') \<longrightarrow>
      q' = q \<and> g' = g \<and> StoredMessage_isEmpty (getNextJob q)"
  proof (rule impI)
    assume a: "markJobAsDone q p opts g = (Inl NoPendingJob, q', g')"
    from markJobAsDone_Inl_no_pending [OF a] have n: "StoredMessage_isEmpty (getNextJob q)" .
    from a markJobAsDone_guard_fails [OF n, of p opts g]
    show "q' = q \<and> g' = g \<and> StoredMessage_isEmpty (getNextJob q)" using n by simp
  qed
  from one two show ?thesis by (rule conjI)
qed

theorem guard_failure_is_atomic_witness:
  "createJob queueQpending (js ''payload-2'') plainOptions pendingRepository
     = (Inl (JobAlreadyPending (js ''a'')), queueQpending, pendingRepository)
   \<and> \<not> StoredMessage_isEmpty (getNextJob queueQpending)
   \<and> markJobAsDone queueQ (js ''payload-1'') plainOptions emptyRepository
     = (Inl NoPendingJob, queueQ, emptyRepository)
   \<and> StoredMessage_isEmpty (getNextJob queueQ)"
proof -
  from createJob_guard_fails [OF queueQpending_pending(1), of "js ''payload-2''" plainOptions
      pendingRepository]
  have a: "createJob queueQpending (js ''payload-2'') plainOptions pendingRepository
     = (Inl (JobAlreadyPending (js ''a'')), queueQpending, pendingRepository)"
    by (simp add: queueQpending_pending(2))
  have b: "markJobAsDone queueQ (js ''payload-1'') plainOptions emptyRepository
     = (Inl NoPendingJob, queueQ, emptyRepository)"
    using queueQ_no_pending by (rule markJobAsDone_guard_fails)
  from guard_failure_is_atomic [of queueQpending "js ''payload-2''" plainOptions
      pendingRepository "js ''a''" queueQpending pendingRepository] a
  have c: "\<not> StoredMessage_isEmpty (getNextJob queueQpending)" by blast
  from guard_failure_is_atomic [of queueQ "js ''payload-1''" plainOptions
      emptyRepository "js ''a''" queueQ emptyRepository] b
  have d: "StoredMessage_isEmpty (getNextJob queueQ)" by blast
  from a b c d show ?thesis by (intro conjI)
qed

subsection \<open>C7: the first load of an empty repository\<close>



subsection \<open>C1: two queues in one repository\<close>

text \<open>
  C1 asks that a commit made through one queue never appears among the messages of a
  queue with another name. The filter accepts every subject that ends with the queue's
  name, so the job created on queue \<open>ax\<close> belongs to queue \<open>x\<close> as well: a queue
  \<open>x\<close> created on the same branch loads it, and its \<open>getNextJob\<close> finds it.
\<close>

theorem other_queue_sees_job:
  "createJob queueAX (js ''payload-1'') plainOptions emptyRepository
     = (Inr (Commit (js ''a'')),
        queueAX\<lparr>storedMessages := [StoredCreateJobMessage jobOnAX]\<rparr>,
        emptyRepository\<lparr>history := [jobOnAX],
          commit_calls := [([js ''CLAIM LOCK: JOB: ax'', js ''payload-1''],
            forSimpleGit plainOptions)]\<rparr>)
   \<and> commitBelongsToQueue \<lparr>name = js ''x'', gitRepoDir = js ''/repo'', storedMessages = []\<rparr>
        jobOnAX
   \<and> create (js ''x'') (js ''/repo'')
        (emptyRepository\<lparr>history := [jobOnAX],
          commit_calls := [([js ''CLAIM LOCK: JOB: ax'', js ''payload-1''],
            forSimpleGit plainOptions)]\<rparr>)
     = Inr \<lparr>name = js ''x'', gitRepoDir = js ''/repo'',
          storedMessages = [StoredCreateJobMessage jobOnAX]\<rparr>
   \<and> getNextJob \<lparr>name = js ''x'', gitRepoDir = js ''/repo'',
          storedMessages = [StoredCreateJobMessage jobOnAX]\<rparr>
     = StoredCreateJobMessage jobOnAX
   \<and> \<not> StoredMessage_isEmpty (StoredCreateJobMessage jobOnAX)"
  by (simp add: unfold_queue queueAX_def jobOnAX_def emptyRepository_def)

subsection \<open>C2: a rejected push\<close>

text \<open>
  C2 asks that a failed push makes \<open>createJob\<close> and \<open>markJobAsDone\<close> fail. On a
  repository whose remote rejects the push, both answer the new commit as if nothing had
  happened, and the remote has received nothing.
\<close>

theorem rejected_push_is_dropped:
  "fst (git_push (rejectingRemote\<lparr>history := [pendingCommit]\<rparr>))
     = Inl (GitFault (js ''rejected''))
   \<and> createJob queueQ (js ''payload-1'') plainOptions rejectingRemote
     = (Inr (Commit (js ''a'')), queueQpending,
        rejectingRemote\<lparr>history := [pendingCommit],
          commit_calls := [([js ''CLAIM LOCK: JOB: Q'', js ''payload-1''],
            forSimpleGit plainOptions)]\<rparr>)
   \<and> pushed (rejectingRemote\<lparr>history := [pendingCommit],
          commit_calls := [([js ''CLAIM LOCK: JOB: Q'', js ''payload-1''],
            forSimpleGit plainOptions)]\<rparr>) = []
   \<and> fst (markJobAsDone queueQpending (js ''done'') plainOptions
        (rejectingRemote\<lparr>history := [pendingCommit]\<rparr>)) = Inr (Commit (js ''aa''))
   \<and> pushed (snd (snd (markJobAsDone queueQpending (js ''done'') plainOptions
        (rejectingRemote\<lparr>history := [pendingCommit]\<rparr>)))) = []"
  by (simp add: unfold_queue queueQ_def queueQpending_def pendingCommit_def
      rejectingRemote_def emptyRepository_def)

subsection \<open>C9: commits the factory does not recognise\<close>

text \<open>
  C9 asks that no commit that passes the queue's filter is refused by the factory. A
  commit with the subject \<open>Update FAQ\<close> passes the filter of queue \<open>Q\<close>, starts with
  neither prefix, and makes the load fail with the invalid-queue-message error.
\<close>

theorem filtered_commit_is_unrecognized:
  "commitBelongsToQueue queueQ foreignCommit
   \<and> messageFactoryFromCommit foreignCommit = Inl (UnrecognizedEvent (js ''b''))
   \<and> create (js ''Q'') (js ''/repo'') (emptyRepository\<lparr>history := [foreignCommit]\<rparr>)
     = Inl (UnrecognizedEvent (js ''b''))"
  by (simp add: unfold_queue queueQ_def foreignCommit_def emptyRepository_def)

end
